theory Spec2Isabelle
  imports Complex_Main
begin

section \<open>JavaScript values and string helpers\<close>

text \<open>
  The scraper (\<^verbatim>\<open>index.js\<close>) handles strings that may be \<^verbatim>\<open>null\<close> or
  \<^verbatim>\<open>undefined\<close>: attribute values, cell values of the sheet, environment variables.
  Such a value is a \<open>string option\<close>, \<open>None\<close> standing for \<^verbatim>\<open>null\<close>/\<^verbatim>\<open>undefined\<close>.
  A string is a list of characters, and a character of the model is a UTF-16 code unit
  below 256: Basic Latin and the Latin-1 Supplement, \<open>CHR 0xA0\<close> being the no-break
  space. On such strings \<open>length\<close> is JavaScript's \<^verbatim>\<open>.length\<close>. Text with other code
  units is outside the model; every phrase the code compares against is ASCII.
\<close>

text \<open>Truthiness of a string-or-null value: \<^verbatim>\<open>null\<close>, \<^verbatim>\<open>undefined\<close> and \<^verbatim>\<open>""\<close> are falsy.\<close>

definition truthy :: "string option \<Rightarrow> bool" where
  "truthy v = (case v of None \<Rightarrow> False | Some s \<Rightarrow> s \<noteq> [])"

text \<open>\<^verbatim>\<open>a || b\<close>: the left operand when it is truthy, the right operand otherwise.\<close>

definition js_or :: "string option \<Rightarrow> string option \<Rightarrow> string option" where
  "js_or a b = (if truthy a then a else b)"

text \<open>A value inside a template literal: \<^verbatim>\<open>`${v}`\<close>.\<close>

definition template :: "string option \<Rightarrow> string" where
  "template v = (case v of None \<Rightarrow> ''undefined'' | Some s \<Rightarrow> s)"

text \<open>A thrown JavaScript error: its \<^verbatim>\<open>message\<close> and, when it has one, its \<^verbatim>\<open>code\<close>.\<close>

datatype js_error = JsError (message: string) (code: "int option")

text \<open>
  \<^verbatim>\<open>String.prototype.toLowerCase\<close> on the code units below 256: the letters A to Z,
  and the capital letters of the Latin-1 Supplement (\<open>0xC0\<close> to \<open>0xDE\<close>, without the
  multiplication sign \<open>0xD7\<close>), each mapped to the code unit 32 above it.
\<close>

definition upperCaseLetters :: string where
  "upperCaseLetters =
     ''ABCDEFGHIJKLMNOPQRSTUVWXYZ''
     @ [CHR 0xC0, CHR 0xC1, CHR 0xC2, CHR 0xC3, CHR 0xC4, CHR 0xC5, CHR 0xC6, CHR 0xC7,
        CHR 0xC8, CHR 0xC9, CHR 0xCA, CHR 0xCB, CHR 0xCC, CHR 0xCD, CHR 0xCE, CHR 0xCF,
        CHR 0xD0, CHR 0xD1, CHR 0xD2, CHR 0xD3, CHR 0xD4, CHR 0xD5, CHR 0xD6,
        CHR 0xD8, CHR 0xD9, CHR 0xDA, CHR 0xDB, CHR 0xDC, CHR 0xDD, CHR 0xDE]"

definition lowerCaseLetters :: string where
  "lowerCaseLetters =
     ''abcdefghijklmnopqrstuvwxyz''
     @ [CHR 0xE0, CHR 0xE1, CHR 0xE2, CHR 0xE3, CHR 0xE4, CHR 0xE5, CHR 0xE6, CHR 0xE7,
        CHR 0xE8, CHR 0xE9, CHR 0xEA, CHR 0xEB, CHR 0xEC, CHR 0xED, CHR 0xEE, CHR 0xEF,
        CHR 0xF0, CHR 0xF1, CHR 0xF2, CHR 0xF3, CHR 0xF4, CHR 0xF5, CHR 0xF6,
        CHR 0xF8, CHR 0xF9, CHR 0xFA, CHR 0xFB, CHR 0xFC, CHR 0xFD, CHR 0xFE]"

definition toLowerCase_char :: "char \<Rightarrow> char" where
  "toLowerCase_char c =
     (case map_of (zip upperCaseLetters lowerCaseLetters) c of
        None \<Rightarrow> c
      | Some l \<Rightarrow> l)"

definition toLowerCase :: "string \<Rightarrow> string" where
  "toLowerCase s = map toLowerCase_char s"

text \<open>\<^verbatim>\<open>s.includes(p)\<close>: \<open>p\<close> occurs in \<open>s\<close> as a contiguous substring.\<close>

fun startsWith :: "string \<Rightarrow> string \<Rightarrow> bool" where
  "startsWith s [] = True"
| "startsWith [] (p # ps) = False"
| "startsWith (c # cs) (p # ps) = (c = p \<and> startsWith cs ps)"

fun includes_str :: "string \<Rightarrow> string \<Rightarrow> bool" where
  "includes_str [] p = (p = [])"
| "includes_str (c # cs) p = (startsWith (c # cs) p \<or> includes_str cs p)"

text \<open>
  \<^verbatim>\<open>String.prototype.trim\<close>: white space and line terminators are removed from both
  ends. Among the code units below 256 these are tab, line feed, vertical tab, form feed,
  carriage return, space and the no-break space.
\<close>

definition isSpace :: "char \<Rightarrow> bool" where
  "isSpace c =
     (c \<in> set [CHR 0x09, CHR 0x0A, CHR 0x0B, CHR 0x0C, CHR 0x0D, CHR '' '', CHR 0xA0])"

definition trim :: "string \<Rightarrow> string" where
  "trim s = rev (dropWhile isSpace (rev (dropWhile isSpace s)))"

text \<open>\<^verbatim>\<open>parts.join(sep)\<close>.\<close>

fun join :: "string \<Rightarrow> string list \<Rightarrow> string" where
  "join sep [] = []"
| "join sep [x] = x"
| "join sep (x # y # ys) = x @ sep @ join sep (y # ys)"

text \<open>\<^verbatim>\<open>xs.indexOf(x)\<close>: the first index of \<open>x\<close>, or \<open>-1\<close>.\<close>

fun indexOf :: "'a list \<Rightarrow> 'a \<Rightarrow> int" where
  "indexOf [] x = - 1"
| "indexOf (y # ys) x = (if y = x then 0 else (let i = indexOf ys x in if i = - 1 then - 1 else i + 1))"

text \<open>\<^verbatim>\<open>row[i]\<close>: \<^verbatim>\<open>undefined\<close> out of range.\<close>

definition at_index :: "'a list \<Rightarrow> int \<Rightarrow> 'a option" where
  "at_index xs i = (if 0 \<le> i \<and> i < int (length xs) then Some (xs ! nat i) else None)"


section \<open>Recency filter\<close>

text \<open>
  \<^verbatim>\<open>new Date(timestamp)\<close> belongs to the JavaScript runtime. It is a parameter of the
  model: for a string it answers \<open>Inr (Some ms)\<close> (a valid instant, in milliseconds
  since the epoch), \<open>Inr None\<close> (an Invalid Date, whose time value is \<^verbatim>\<open>NaN\<close>) or
  \<open>Inl e\<close> (the constructor threw). \<^verbatim>\<open>new Date()\<close>, the current instant, is the
  parameter \<open>today\<close>.
\<close>

type_synonym date_ctor = "string \<Rightarrow> js_error + int option"

definition MS_PER_DAY :: int where
  "MS_PER_DAY = 1000 * 60 * 60 * 24"

text \<open>
  The module-level \<^verbatim>\<open>isRecentArticle(timestamp, daysBack = 1)\<close> (index.js, lines 64-79).
  A falsy timestamp returns false at once. \<^verbatim>\<open>Math.floor\<close> of the quotient is the
  floor of the exact quotient: both operands are integers below \<open>2^53\<close> and the quotient
  of two instants of the Date range stays below \<open>2^27\<close> days, where a double resolves
  fractions finer than one millisecond of a day. With an Invalid Date the difference is
  \<^verbatim>\<open>NaN\<close> and \<^verbatim>\<open>NaN <= daysBack\<close> is false. The \<^verbatim>\<open>catch\<close> block returns false.
\<close>

definition isRecentArticle :: "date_ctor \<Rightarrow> int \<Rightarrow> string option \<Rightarrow> int \<Rightarrow> bool" where
  "isRecentArticle newDate today timestamp daysBack =
     (case timestamp of
        None \<Rightarrow> False
      | Some ts \<Rightarrow>
          if ts = [] then False
          else (case newDate ts of
                  Inl error \<Rightarrow> False
                | Inr None \<Rightarrow> False
                | Inr (Some articleDate) \<Rightarrow>
                    (let daysDifference =
                           \<lfloor>real_of_int (today - articleDate) / real_of_int MS_PER_DAY\<rfloor>
                     in daysDifference \<le> daysBack)))"

text \<open>
  The helper of the same name declared again inside the page-evaluation closure of
  \<^verbatim>\<open>trySelectors\<close> (index.js, lines 237-247). It has no guard on a falsy timestamp
  (\<^verbatim>\<open>new Date(null)\<close> is the epoch, instant 0) and compares the quotient itself, not its
  floor. The quotient of the doubles lies on the same side of a whole number of days as
  the exact quotient, for the same reason as above, so the comparison is the one of the
  exact quotient.
\<close>

definition isRecentArticle_inpage :: "date_ctor \<Rightarrow> int \<Rightarrow> string option \<Rightarrow> int \<Rightarrow> bool" where
  "isRecentArticle_inpage newDate today timestamp maxDaysAgo =
     (case (case timestamp of None \<Rightarrow> Inr (Some 0) | Some ts \<Rightarrow> newDate ts) of
        Inl error \<Rightarrow> False
      | Inr None \<Rightarrow> False
      | Inr (Some articleDate) \<Rightarrow>
          (let diffTime = today - articleDate;
               daysDiff = real_of_int diffTime / real_of_int MS_PER_DAY
           in daysDiff \<le> real_of_int maxDaysAgo))"

text \<open>A date constructor for the examples: it knows two instants and rejects the rest.\<close>

definition example_newDate :: date_ctor where
  "example_newDate s =
     (if s = ''2024-01-02T00:00:00.000Z'' then Inr (Some 1704153600000)
      else if s = ''2024-01-05T00:00:00.000Z'' then Inr (Some 1704412800000)
      else Inr None)"


section \<open>Effects\<close>

text \<open>
  Every function of the scraper that talks to the browser, the sheet, the console or the
  publishing endpoint returns, next to its result, the list of the effects it performed,
  in order. The places where \<^verbatim>\<open>page.evaluate\<close> is called are named.
\<close>

datatype eval_site =
    ProviderText | LoginIndicators | LoginElements | FallbackContent | AutoScroll | TrySelectors

record payload =
  Headline :: "string option"
  Fullarticle :: "string option"
  Provider :: "string option"
  Symbol :: "string option"
  date :: string

datatype event =
    Log string
  | LogError string
  | Delay nat
  | Evaluate eval_site
  | WaitForSelector string
  | EvalInnerText string
  | Authorize
  | SheetsGet string
  | Goto string
  | NewArticlePage
  | ArticleGoto string
  | CloseArticlePage
  | AxiosPost string payload
  | BrowserClose

definition prepend :: "event list \<Rightarrow> 'a \<times> event list \<Rightarrow> 'a \<times> event list" where
  "prepend es r = (fst r, es @ snd r)"

text \<open>Decimal rendering of a count inside a log message.\<close>

fun show_nat :: "nat \<Rightarrow> string" where
  "show_nat n =
     (if n < 10 then [''0123456789'' ! n]
      else show_nat (n div 10) @ [''0123456789'' ! (n mod 10)])"

declare show_nat.simps [simp del]


section \<open>Selector registry\<close>

record selector_registry =
  articleSelectors :: "string list"
  headlineSelectors :: "string list"
  providerSelectors :: "string list"
  contentSelectors :: "string list"
  timeSelectors :: "string list"

definition SELECTOR_REGISTRY :: selector_registry where
  \<open>SELECTOR_REGISTRY = \<lparr>
     articleSelectors =
       [''article[class*="article-"]'', ''a[href*="/news/"]'',
        ''[data-qa-id="news-headline-card"]'', ''div[class*="card-"][class*="news"]'',
        ''tr[class*="row-"]''],
     headlineSelectors =
       [''[data-overflow-tooltip-text]'', ''[data-qa-id="news-headline-title"]'',
        ''div[class*="title-"]'', ''h3'', ''h4''],
     providerSelectors =
       [''[class*="provider-"]'', ''span[class*="provider"]'', ''div[class*="source"]''],
     contentSelectors =
       [''.body-KX2tCBZq'', ''div[class*="body-"]'', ''div[class*="content-"]'',
        ''article[data-role="article"] div[class*="content"]'',
        ''div[class*="article-body"]'', ''[itemprop="articleBody"]''],
     timeSelectors =
       [''relative-time'', ''time'', ''[datetime]'', ''[class*="date-"]'', ''[class*="time-"]'']
   \<rparr>\<close>


section \<open>Article pages: the Access Gate and the Content Extractor\<close>

text \<open>
  What a loaded article page answers to the queries the code makes of it:
  \<^item> \<open>evaluate_fails site\<close>: the \<^verbatim>\<open>page.evaluate\<close> call at that site rejects;
  \<^item> \<open>providerInnerText\<close>: \<^verbatim>\<open>document.querySelector('[class*="provider"]')?.innerText\<close>;
  \<^item> \<open>visibleContainers\<close>: the \<^verbatim>\<open>innerText\<close> of every \<^verbatim>\<open>div, section, article, header\<close>
    whose \<^verbatim>\<open>offsetParent\<close> is not null, in document order;
  \<^item> \<open>hasElement sel\<close>: \<^verbatim>\<open>document.querySelector(sel)\<close> is not null;
  \<^item> \<open>waitForSelector sel\<close>: the error \<^verbatim>\<open>page.waitForSelector(sel, {timeout: 3000})\<close>
    throws, if it does;
  \<^item> \<open>eval_innerText sel\<close>: what \<^verbatim>\<open>page.$eval(sel, el => el.innerText...)\<close> reads, the
    \<^verbatim>\<open>innerText\<close> of the first match before trimming, or the error it throws;
  \<^item> \<open>containerInnerText sel\<close>: \<^verbatim>\<open>document.querySelector(sel)?.innerText\<close>.
\<close>

record page =
  evaluate_fails :: "eval_site \<Rightarrow> js_error option"
  providerInnerText :: "string option"
  visibleContainers :: "string list"
  hasElement :: "string \<Rightarrow> bool"
  waitForSelector :: "string \<Rightarrow> js_error option"
  eval_innerText :: "string \<Rightarrow> js_error + string"
  containerInnerText :: "string \<Rightarrow> string option"

text \<open>\<^verbatim>\<open>await page.evaluate(closure)\<close>: the closure's value, or the error of a rejected call.\<close>

definition evaluate :: "page \<Rightarrow> eval_site \<Rightarrow> (page \<Rightarrow> 'a) \<Rightarrow> js_error + 'a" where
  "evaluate p site closure =
     (case evaluate_fails p site of Some e \<Rightarrow> Inl e | None \<Rightarrow> Inr (closure p))"

subsection \<open>\<^verbatim>\<open>checkIfArticleRequiresLogin\<close> (index.js, lines 371-438)\<close>

definition knownFreeProviders :: "string list" where
  "knownFreeProviders = [''moneycontrol'', ''reuters'', ''business standard'', ''investing.com'']"

definition loginIndicatorPhrases :: "string list" where
  "loginIndicatorPhrases =
     [''sign in to read'', ''login to continue'', ''subscribe to read'', ''premium content'',
      ''members only'', ''requires subscription'', ''sign up to continue reading'',
      ''paywall'', ''membership required'']"

definition loginSelectors :: "string list" where
  \<open>loginSelectors =
     [''[class*="paywall"]'', ''[class*="subscription"]'', ''[class*="premium"]'',
      ''[id*="login"]'', ''[class*="sign-in"]'', ''button[class*="subscribe"]'',
      ''[class*="member-only"]'', ''[data-login-required]'']\<close>

text \<open>The three closures evaluated in the page (lines 382-385, 395-415, 418-431).\<close>

definition providerText_closure :: "page \<Rightarrow> string" where
  "providerText_closure doc =
     (case providerInnerText doc of None \<Rightarrow> [] | Some t \<Rightarrow> trim (toLowerCase t))"

definition loginIndicators_closure :: "page \<Rightarrow> bool" where
  "loginIndicators_closure doc =
     list_ex (\<lambda>el. list_ex (\<lambda>text. includes_str (toLowerCase el) text) loginIndicatorPhrases)
       (visibleContainers doc)"

definition hasLoginElements_closure :: "page \<Rightarrow> bool" where
  "hasLoginElements_closure doc = list_ex (\<lambda>sel. hasElement doc sel) loginSelectors"

text \<open>The body of the \<^verbatim>\<open>try\<close> block: its value, or the error that leaves it.\<close>

definition checkIfArticleRequiresLogin_try :: "page \<Rightarrow> (js_error + bool) \<times> event list" where
  "checkIfArticleRequiresLogin_try page =
     (case evaluate page ProviderText providerText_closure of
        Inl e \<Rightarrow> (Inl e, [Evaluate ProviderText])
      | Inr providerText \<Rightarrow>
          if list_ex (\<lambda>p. includes_str providerText p) knownFreeProviders
          then (Inr False,
                [Evaluate ProviderText,
                 Log (''Skipping login check - public provider detected: '' @ providerText)])
          else
            (case evaluate page LoginIndicators loginIndicators_closure of
               Inl e \<Rightarrow> (Inl e, [Evaluate ProviderText, Evaluate LoginIndicators])
             | Inr loginIndicators \<Rightarrow>
                 (case evaluate page LoginElements hasLoginElements_closure of
                    Inl e \<Rightarrow>
                      (Inl e,
                       [Evaluate ProviderText, Evaluate LoginIndicators, Evaluate LoginElements])
                  | Inr hasLoginElements \<Rightarrow>
                      (Inr (loginIndicators \<or> hasLoginElements),
                       [Evaluate ProviderText, Evaluate LoginIndicators,
                        Evaluate LoginElements]))))"

text \<open>The function: the \<^verbatim>\<open>catch\<close> block logs the error and returns false.\<close>

definition checkIfArticleRequiresLogin :: "page \<Rightarrow> bool \<times> event list" where
  "checkIfArticleRequiresLogin page =
     (case checkIfArticleRequiresLogin_try page of
        (Inr requiresLogin, tr) \<Rightarrow> (requiresLogin, tr)
      | (Inl error, tr) \<Rightarrow>
          (False, tr @ [Log (''Error during login check: '' @ message error)]))"

subsection \<open>\<^verbatim>\<open>extractArticleContent\<close> (index.js, lines 440-536)\<close>

definition restrictedPhrases :: "string list" where
  "restrictedPhrases =
     [''sign in to read exclusive news'', ''login or create a forever free account'',
      ''subscribe to read this article'', ''this article is reserved for our members'',
      ''premium content'', ''requires subscription'']"

definition isRestricted :: "string \<Rightarrow> bool" where
  "isRestricted content =
     (let contentLower = toLowerCase content
      in list_ex (\<lambda>phrase. includes_str contentLower phrase) restrictedPhrases)"

text \<open>
  How the loop over the content selectors ends: with a \<^verbatim>\<open>return\<close> of the function
  (a text, or \<^verbatim>\<open>null\<close>), or by running out of selectors.
\<close>

datatype loop_exit = Returned "string option" | Exhausted

text \<open>
  The loop of lines 452-483. An error of \<^verbatim>\<open>waitForSelector\<close> or of \<^verbatim>\<open>$eval\<close> is
  caught and the next selector is tried; so is a text that is empty or has at most 50
  characters.
\<close>

fun contentSelectorLoop :: "page \<Rightarrow> string list \<Rightarrow> loop_exit \<times> event list" where
  "contentSelectorLoop page [] = (Exhausted, [])"
| "contentSelectorLoop page (selector # rest) =
     (case waitForSelector page selector of
        Some error \<Rightarrow> prepend [WaitForSelector selector] (contentSelectorLoop page rest)
      | None \<Rightarrow>
          (case eval_innerText page selector of
             Inl error \<Rightarrow>
               prepend [WaitForSelector selector, EvalInnerText selector]
                 (contentSelectorLoop page rest)
           | Inr innerText \<Rightarrow>
               (let content = trim innerText in
                if content \<noteq> [] \<and> length content > 50 then
                  (if \<not> isRestricted content
                   then (Returned (Some content),
                         [WaitForSelector selector, EvalInnerText selector,
                          Log (''Successfully extracted content ('' @ show_nat (length content)
                               @ '' characters)'')])
                   else (Returned None,
                         [WaitForSelector selector, EvalInnerText selector,
                          Log ''Content contains restricted phrases - skipping'']))
                else
                  prepend [WaitForSelector selector, EvalInnerText selector]
                    (contentSelectorLoop page rest))))"

definition fallbackContainers :: "string list" where
  \<open>fallbackContainers =
     [''article'', ''main'', ''[role="main"]'', ''.article-content'', ''.content'',
      ''.post-content'']\<close>

text \<open>The closure of the fallback (lines 487-509).\<close>

fun containerLoop :: "page \<Rightarrow> string list \<Rightarrow> string option" where
  "containerLoop doc [] = None"
| "containerLoop doc (containerSelector # rest) =
     (case containerInnerText doc containerSelector of
        None \<Rightarrow> containerLoop doc rest
      | Some innerText \<Rightarrow>
          (let text = trim innerText in
           if text \<noteq> [] \<and> length text > 100 then Some text else containerLoop doc rest))"

definition fallback_closure :: "page \<Rightarrow> string option" where
  "fallback_closure doc = containerLoop doc fallbackContainers"

definition extractArticleContent :: "page \<Rightarrow> string option \<times> event list" where
  "extractArticleContent page =
     prepend [Delay 3000]
       (case checkIfArticleRequiresLogin page of
          (True, tr) \<Rightarrow> (None, tr @ [Log ''Article requires login/subscription - skipping''])
        | (False, tr) \<Rightarrow>
            prepend tr
              (case contentSelectorLoop page (contentSelectors SELECTOR_REGISTRY) of
                 (Returned r, tr2) \<Rightarrow> (r, tr2)
               | (Exhausted, tr2) \<Rightarrow>
                   prepend (tr2 @ [Evaluate FallbackContent])
                     (case evaluate page FallbackContent fallback_closure of
                        Inl error \<Rightarrow>
                          (None,
                           [Log (''Fallback content extraction failed: '' @ message error),
                            Log ''No publicly available content found''])
                      | Inr None \<Rightarrow> (None, [Log ''No publicly available content found''])
                      | Inr (Some content) \<Rightarrow>
                          if content \<noteq> [] \<and> \<not> isRestricted content
                          then (Some content,
                                [Log (''Fallback extraction successful (''
                                      @ show_nat (length content) @ '' characters)'')])
                          else (None, [Log ''No publicly available content found'']))))"


subsection \<open>Example article pages\<close>

text \<open>
  A page that shows \<open>provider\<close> as its provider element, one visible container with the
  paywall phrase "Subscribe to read", an element for every structural paywall selector,
  and \<open>body\<close> as the text of the \<^verbatim>\<open>div[class*="body-"]\<close> element and of \<^verbatim>\<open>article\<close>.
  The \<^verbatim>\<open>page.evaluate\<close> call at \<open>broken\<close>, if any, rejects.
\<close>

definition example_page :: "eval_site option \<Rightarrow> string option \<Rightarrow> string \<Rightarrow> page" where
  \<open>example_page broken provider body = \<lparr>
     evaluate_fails =
       (\<lambda>site. if Some site = broken then Some (JsError ''Execution context was destroyed'' None)
               else None),
     providerInnerText = provider,
     visibleContainers = [''Subscribe to read the full story''],
     hasElement = (\<lambda>sel. True),
     waitForSelector =
       (\<lambda>sel. if sel = ''div[class*="body-"]'' then None
              else Some (JsError ''TimeoutError'' None)),
     eval_innerText = (\<lambda>sel. Inr body),
     containerInnerText = (\<lambda>sel. if sel = ''article'' then Some body else None)
   \<rparr>\<close>

text \<open>A page with no provider element and no paywall marker of either kind.\<close>

definition open_page :: "string \<Rightarrow> page" where
  \<open>open_page body =
     (example_page None None body)
       \<lparr> visibleContainers := [body], hasElement := (\<lambda>sel. False) \<rparr>\<close>

text \<open>The one content selector the example pages answer to (the second of the registry).\<close>

definition body_selector :: string where
  \<open>body_selector = ''div[class*="body-"]''\<close>

text \<open>
  Four bodies: 40 characters; 50 characters; 60 characters with a phrase that is
  restricted content but none of the gate's paywall phrases; 60 clean characters.
\<close>

definition body40 :: string where
  "body40 = ''Shares rose two percent after the update''"

definition body50 :: string where
  "body50 = ''Quarterly revenue rose four percent, company says.''"

definition body60_restricted :: string where
  "body60_restricted = ''This article is reserved for our MEMBERS. Join us today now!''"

definition body60_clean :: string where
  "body60_clean = ''The company reported a steady quarter with higher revenue ok''"

text \<open>
  The same bodies as a page holds them, with white space around: spaces, and a no-break
  space after the 40 and the 50 characters.
\<close>

definition body40_padded :: string where
  "body40_padded = '' Shares rose two percent after the update'' @ [CHR 0xA0, CHR '' '']"

definition body50_padded :: string where
  "body50_padded = ''Quarterly revenue rose four percent, company says.'' @ [CHR 0xA0]"

definition body60_clean_padded :: string where
  "body60_clean_padded = '' The company reported a steady quarter with higher revenue ok''"

text \<open>
  The content selectors of the registry: the first, which the example pages do not have,
  the second, which they answer to, and the four after it.
\<close>

definition first_selector :: string where
  "first_selector = ''.body-KX2tCBZq''"

definition later_selectors :: "string list" where
  \<open>later_selectors =
     [''div[class*="content-"]'', ''article[data-role="article"] div[class*="content"]'',
      ''div[class*="article-body"]'', ''[itemprop="articleBody"]'']\<close>


section \<open>Listing pages: the Article Extractor and the Deduplicator\<close>

text \<open>
  A DOM element, as far as the closure of \<^verbatim>\<open>trySelectors\<close> reads it: its attributes
  (\<^verbatim>\<open>getAttribute\<close>, \<^verbatim>\<open>null\<close> when absent), its \<^verbatim>\<open>textContent\<close> and its \<^verbatim>\<open>href\<close>
  property (\<^verbatim>\<open>undefined\<close> on an element that is not a link). An article card has in
  addition its \<^verbatim>\<open>querySelector\<close> (first matching descendant), its nearest enclosing
  anchor \<^verbatim>\<open>closest("a")\<close>, and the \<^verbatim>\<open>src\<close> of each descendant \<^verbatim>\<open>img[src*=".svg"]\<close>.
\<close>

record node =
  getAttribute :: "string \<Rightarrow> string option"
  textContent :: string
  href :: "string option"

record element = node +
  querySelector :: "string \<Rightarrow> node option"
  closest_a :: "node option"
  svgImgs :: "string list"

text \<open>The three field loops (lines 256-265, 297-303, 314-324), each with its variable.\<close>

fun headlineLoop :: "element \<Rightarrow> string option \<Rightarrow> string list \<Rightarrow> string option" where
  "headlineLoop element headline [] = headline"
| "headlineLoop element headline (selector # rest) =
     (case querySelector element selector of
        None \<Rightarrow> headlineLoop element headline rest
      | Some h \<Rightarrow>
          (let headline' =
                 js_or (js_or (getAttribute h ''data-overflow-tooltip-text'')
                              (getAttribute h ''title''))
                       (Some (trim (textContent h)))
           in if truthy headline' then headline' else headlineLoop element headline' rest))"

fun providerLoop :: "element \<Rightarrow> string option \<Rightarrow> string list \<Rightarrow> string option" where
  "providerLoop element provider [] = provider"
| "providerLoop element provider (selector # rest) =
     (case querySelector element selector of
        None \<Rightarrow> providerLoop element provider rest
      | Some el \<Rightarrow>
          (let provider' = Some (trim (textContent el))
           in if truthy provider' then provider' else providerLoop element provider' rest))"

fun timeLoop :: "element \<Rightarrow> string option \<Rightarrow> string list \<Rightarrow> string option" where
  "timeLoop element timestamp [] = timestamp"
| "timeLoop element timestamp (selector # rest) =
     (case querySelector element selector of
        None \<Rightarrow> timeLoop element timestamp rest
      | Some t \<Rightarrow>
          (let timestamp' =
                 js_or (js_or (js_or (getAttribute t ''event-time'')
                                     (getAttribute t ''datetime''))
                              (getAttribute t ''data-timestamp''))
                       (Some (trim (textContent t)))
           in if truthy timestamp' then timestamp' else timeLoop element timestamp' rest))"

definition restrictedIndicators :: "string list" where
  "restrictedIndicators =
     [''sign in to read exclusive news'', ''login to read'', ''subscribe to read'',
      ''premium content'', ''members only'', ''exclusive news'', ''requires subscription'']"

text \<open>
  The symbol code of one icon (lines 334-336): \<^verbatim>\<open>src.match(/\/([^\/]+)\.svg$/)\<close> finds
  the last path segment when it ends in \<^verbatim>\<open>.svg\<close> and has something before that; the
  hyphens of the captured part are removed.
\<close>

definition endsWith :: "string \<Rightarrow> string \<Rightarrow> bool" where
  "endsWith s suffix = startsWith (rev s) (rev suffix)"

definition svgCode :: "string \<Rightarrow> string option" where
  "svgCode src =
     (let segment = rev (takeWhile (\<lambda>c. c \<noteq> CHR ''/'') (rev src)) in
      if CHR ''/'' \<in> set src \<and> endsWith segment ''.svg'' \<and> 4 < length segment
      then Some (filter (\<lambda>c. c \<noteq> CHR ''-'') (take (length segment - 4) segment))
      else None)"

text \<open>Lines 329-342: \<^verbatim>\<open>.filter(Boolean)\<close> drops \<^verbatim>\<open>null\<close> and the empty code.\<close>

definition cardSymbol_of :: "element \<Rightarrow> string option" where
  "cardSymbol_of element =
     (let codes = filter (\<lambda>code. code \<noteq> [])
                    (List.map_filter svgCode (svgImgs element))
      in if 0 < length codes then Some (concat codes) else None)"

text \<open>The record pushed for a card that passes every check (lines 344-350).\<close>

record article =
  headline :: "string option"
  provider :: "string option"
  timestamp :: "string option"
  link :: "string option"
  symbol :: "string option"

text \<open>
  The callback of \<^verbatim>\<open>forEach\<close> (lines 253-351) for one card: \<open>None\<close> when the
  callback returns early, the record it pushes otherwise. \<open>newDate\<close> and \<open>today\<close> are
  the date constructor and the clock of the browser; \<open>stockSymbol\<close> is
  the closure's \<^verbatim>\<open>symbol\<close> argument.
\<close>

definition articleOfElement ::
  "date_ctor \<Rightarrow> int \<Rightarrow> selector_registry \<Rightarrow> string option \<Rightarrow> element \<Rightarrow> article option" where
  "articleOfElement newDate today selectors stockSymbol element =
     (let headline0 = headlineLoop element None (headlineSelectors selectors);
          headline1 =
            (if \<not> truthy headline0
             then js_or (js_or (getAttribute element ''data-overflow-tooltip-text'')
                               (getAttribute element ''title''))
                        (Some (trim (textContent element)))
             else headline0)
      in case headline1 of
           None \<Rightarrow> None
         | Some headlineText \<Rightarrow>
             if headlineText = [] then None
             else if list_ex (\<lambda>indicator. includes_str (toLowerCase headlineText) indicator)
                       restrictedIndicators
             then None
             else
               (let provider0 = providerLoop element None (providerSelectors selectors);
                    link0 =
                      js_or (js_or (href element)
                                   (case querySelector element ''a'' of
                                      None \<Rightarrow> None | Some a \<Rightarrow> href a))
                            (case closest_a element of None \<Rightarrow> None | Some a \<Rightarrow> href a)
                in if \<not> truthy link0 then None
                   else
                     (let timestamp0 = timeLoop element None (timeSelectors selectors)
                      in if \<not> truthy timestamp0
                            \<or> \<not> isRecentArticle_inpage newDate today timestamp0 3
                         then None
                         else Some \<lparr> headline = Some headlineText,
                                     provider = js_or provider0 (Some ''Unknown''),
                                     timestamp = timestamp0,
                                     link = link0,
                                     symbol = js_or (cardSymbol_of element) stockSymbol \<rparr>)))"

subsection \<open>Deduplication (lines 353-364)\<close>

definition dedupKey :: "article \<Rightarrow> string" where
  "dedupKey a = template (headline a) @ ''-'' @ template (timestamp a) @ ''-'' @ template (symbol a)"

fun uniqueLoop :: "article list \<Rightarrow> string set \<Rightarrow> article list \<Rightarrow> article list" where
  "uniqueLoop [] seenKeys uniqueArticles = uniqueArticles"
| "uniqueLoop (a # rest) seenKeys uniqueArticles =
     (let key = dedupKey a in
      if key \<notin> seenKeys
      then uniqueLoop rest (insert key seenKeys) (uniqueArticles @ [a])
      else uniqueLoop rest seenKeys uniqueArticles)"

definition dedupe :: "article list \<Rightarrow> article list" where
  "dedupe articles = uniqueLoop articles {} []"

subsection \<open>\<^verbatim>\<open>trySelectors\<close> (lines 234-369)\<close>

text \<open>
  A loaded listing page: the elements \<^verbatim>\<open>document.querySelectorAll\<close> finds for a
  selector list, in document order, and the \<^verbatim>\<open>page.evaluate\<close> calls that reject.
\<close>

record listing_page =
  listing_fails :: "eval_site \<Rightarrow> js_error option"
  querySelectorAll :: "string \<Rightarrow> element list"

definition trySelectors_closure ::
  "date_ctor \<Rightarrow> int \<Rightarrow> listing_page \<Rightarrow> selector_registry \<Rightarrow> string option \<Rightarrow> article list" where
  "trySelectors_closure newDate today document selectors stockSymbol =
     (let articles =
            List.map_filter (articleOfElement newDate today selectors stockSymbol)
              (querySelectorAll document (join '','' (articleSelectors selectors)))
      in dedupe articles)"

definition trySelectors ::
  "date_ctor \<Rightarrow> int \<Rightarrow> listing_page \<Rightarrow> selector_registry \<Rightarrow> string option
     \<Rightarrow> js_error + article list" where
  "trySelectors newDate today page selectors stockSymbol =
     (case listing_fails page TrySelectors of
        Some e \<Rightarrow> Inl e
      | None \<Rightarrow> Inr (trySelectors_closure newDate today page selectors stockSymbol))"


subsection \<open>Example articles and cards\<close>

definition mk_article :: "string \<Rightarrow> string \<Rightarrow> string option \<Rightarrow> article" where
  "mk_article h t s =
     \<lparr> headline = Some h, provider = Some ''Unknown'', timestamp = Some t,
       link = Some ''https://in.tradingview.com/news/x/'', symbol = s \<rparr>"

text \<open>
  A card with a title element holding \<open>h\<close>, a \<^verbatim>\<open>time\<close> element whose \<^verbatim>\<open>datetime\<close>
  attribute is \<open>t\<close>, its own \<^verbatim>\<open>href\<close>, no provider element and no icon.
\<close>

definition example_card :: "string \<Rightarrow> string \<Rightarrow> element" where
  "example_card h t =
     \<lparr> getAttribute = (\<lambda>a. None),
       textContent = h,
       href = Some ''https://in.tradingview.com/news/x/'',
       querySelector =
         (\<lambda>sel. if sel = ''h3''
                  then Some \<lparr> getAttribute = (\<lambda>a. None), textContent = h, href = None \<rparr>
                else if sel = ''time''
                  then Some \<lparr> getAttribute = (\<lambda>a. if a = ''datetime'' then Some t else None),
                              textContent = [], href = None \<rparr>
                else None),
       closest_a = None,
       svgImgs = [] \<rparr>"

definition example_listing :: "element list \<Rightarrow> listing_page" where
  "example_listing cards = \<lparr> listing_fails = (\<lambda>site. None), querySelectorAll = (\<lambda>sel. cards) \<rparr>"

text \<open>
  A date constructor for two date forms outside ISO 8601 that V8 accepts: day-month-year,
  and month-year, which it reads as the first day of the month. The instants are those of
  a browser whose time zone is UTC.
\<close>

definition legacy_newDate :: date_ctor where
  "legacy_newDate s =
     (if s = ''02-Jan-2024'' then Inr (Some 1704153600000)
      else if s = ''Jan-2024'' then Inr (Some 1704067200000)
      else Inr None)"


section \<open>Configuration and storage\<close>

text \<open>The environment variables the program reads (\<^verbatim>\<open>process.env\<close>), each possibly unset.\<close>

record environment =
  WP_API_URL :: "string option"
  WP_USER :: "string option"
  WP_PASS :: "string option"
  SHEET_ID :: "string option"
  SHEET_NAME :: "string option"

text \<open>\<^verbatim>\<open>CONFIG\<close> (lines 8-14): the endpoint falls back to a built-in URL.\<close>

record config =
  wpApiUrl :: "string option"
  wpUser :: "string option"
  wpPass :: "string option"

definition defaultWpApiUrl :: string where
  "defaultWpApiUrl = ''https://profitbooking.in/wp-json/scraper/v1/tradingview''"

definition CONFIG :: "environment \<Rightarrow> config" where
  "CONFIG env =
     \<lparr> wpApiUrl = js_or (WP_API_URL env) (Some defaultWpApiUrl),
       wpUser = WP_USER env,
       wpPass = WP_PASS env \<rparr>"

text \<open>
  The object \<^verbatim>\<open>wpData\<close> handed to \<^verbatim>\<open>storeInWordPress\<close> (lines 675-681); its fields
  \<^verbatim>\<open>headline, content, symbol, provider, timestamp\<close> carry the prefix \<open>wp_\<close> here.
\<close>

record wp_data =
  wp_headline :: "string option"
  wp_content :: "string option"
  wp_symbol :: "string option"
  wp_provider :: "string option"
  wp_timestamp :: "string option"

text \<open>
  \<^verbatim>\<open>storeInWordPress\<close> (lines 104-144). Its collaborators are parameters: the date
  constructor, \<open>toISODate\<close> (the date part of \<^verbatim>\<open>toISOString()\<close> of a valid instant),
  the clock and \<open>axios_post\<close> (the response data of the request, or the error it throws).
  \<^verbatim>\<open>toISOString\<close> of an Invalid Date throws a RangeError inside the \<^verbatim>\<open>try\<close> block,
  before the request is made. The request carries the credentials of \<^verbatim>\<open>CONFIG\<close>; the
  effect \<open>AxiosPost\<close> records its URL and body.
\<close>

definition storeInWordPress ::
  "config \<Rightarrow> date_ctor \<Rightarrow> (int \<Rightarrow> string) \<Rightarrow> int \<Rightarrow> (string \<Rightarrow> payload \<Rightarrow> js_error + string)
     \<Rightarrow> wp_data \<Rightarrow> bool \<times> event list" where
  "storeInWordPress cfg newDate toISODate today axios_post data =
     (if \<not> truthy (wpApiUrl cfg)
      then (True, [Log ''WordPress API URL not configured. Skipping storage.''])
      else if \<not> isRecentArticle newDate today (wp_timestamp data) 1
      then (False, [Log ''Skipping storage - article is not recent''])
      else
        (case (case wp_timestamp data of None \<Rightarrow> Inr None | Some ts \<Rightarrow> newDate ts) of
           Inl error \<Rightarrow> (False, [LogError (''WP API Error: '' @ message error)])
         | Inr None \<Rightarrow> (False, [LogError ''WP API Error: Invalid time value''])
         | Inr (Some instant) \<Rightarrow>
             (let body = \<lparr> Headline = wp_headline data,
                           Fullarticle = wp_content data,
                           Provider = js_or (wp_provider data) (Some ''General''),
                           Symbol = wp_symbol data,
                           date = toISODate instant \<rparr>;
                  url = template (wpApiUrl cfg)
              in case axios_post url body of
                   Inr response \<Rightarrow>
                     (True, [AxiosPost url body, Log (''Stored in WordPress: '' @ response)])
                 | Inl error \<Rightarrow>
                     (False,
                      [AxiosPost url body, LogError (''WP API Error: '' @ message error)]))))"

text \<open>Whether a list of effects holds a request to the publishing endpoint.\<close>

fun isPost :: "event \<Rightarrow> bool" where
  "isPost (AxiosPost url body) = True"
| "isPost e = False"


subsection \<open>Example environment and articles to store\<close>

definition example_env :: "string option \<Rightarrow> environment" where
  "example_env url =
     \<lparr> WP_API_URL = url, WP_USER = Some ''editor'', WP_PASS = Some ''secret'',
       SHEET_ID = Some ''sheet-1'', SHEET_NAME = Some ''Sheet1'' \<rparr>"

definition example_data :: "string \<Rightarrow> wp_data" where
  "example_data ts =
     \<lparr> wp_headline = Some ''Sensex ends higher'', wp_content = Some body60_clean,
       wp_symbol = Some ''TCS'', wp_provider = Some ''Unknown'', wp_timestamp = Some ts \<rparr>"

definition example_toISODate :: "int \<Rightarrow> string" where
  "example_toISODate instant =
     (if instant = 1704153600000 then ''2024-01-02'' else ''2024-01-05'')"

definition example_post :: "string \<Rightarrow> payload \<Rightarrow> js_error + string" where
  "example_post url body = Inr ''ok''"

definition example_body :: "string \<Rightarrow> payload" where
  "example_body d =
     \<lparr> Headline = Some ''Sensex ends higher'', Fullarticle = Some body60_clean,
       Provider = Some ''Unknown'', Symbol = Some ''TCS'', date = d \<rparr>"


section \<open>The collaborators of a run\<close>

text \<open>
  Everything outside the program that a run talks to:
  \<^item> \<open>w_newDate\<close>, \<open>w_toISODate\<close>: the date constructor and the date part of
    \<^verbatim>\<open>toISOString()\<close>;
  \<^item> \<open>w_today url\<close>: the clock while the listing page or the article at \<open>url\<close> is handled;
  \<^item> \<open>w_post\<close>: the publishing endpoint behind \<^verbatim>\<open>axios.post\<close>;
  \<^item> \<open>w_authorize\<close>: the error \<^verbatim>\<open>auth.authorize()\<close> throws, if it does;
  \<^item> \<open>w_sheetsGet range\<close>: \<^verbatim>\<open>response.data.values\<close> of
    \<^verbatim>\<open>sheets.spreadsheets.values.get\<close> for that range (absent for an empty range), or the
    error it throws;
  \<^item> \<open>w_goto\<close>, \<open>w_listing\<close>: navigation of the main page to a listing URL (the error it
    throws, if any) and the page it then shows;
  \<^item> \<open>w_articleGoto\<close>, \<open>w_articlePage\<close>: the same for an article page.
  Launching the browser, opening and configuring pages, closing them and the request
  interception are taken to succeed; they are not among the recorded effects, except the
  opening and closing of article pages and the closing of the browser.
\<close>

record world =
  w_newDate :: date_ctor
  w_toISODate :: "int \<Rightarrow> string"
  w_today :: "string \<Rightarrow> int"
  w_post :: "string \<Rightarrow> payload \<Rightarrow> js_error + string"
  w_authorize :: "js_error option"
  w_sheetsGet :: "string \<Rightarrow> js_error + string list list option"
  w_goto :: "string \<Rightarrow> js_error option"
  w_listing :: "string \<Rightarrow> listing_page"
  w_articleGoto :: "string \<Rightarrow> js_error option"
  w_articlePage :: "string \<Rightarrow> page"


section \<open>Reading the sheet: \<^verbatim>\<open>getStockUrlsFromSheet\<close> (index.js, lines 146-232)\<close>

record sheet_config =
  sheetId :: "string option"
  sheetName :: "string option"

definition GOOGLE_SHEET_CONFIG :: "environment \<Rightarrow> sheet_config" where
  "GOOGLE_SHEET_CONFIG env = \<lparr> sheetId = SHEET_ID env, sheetName = SHEET_NAME env \<rparr>"

text \<open>
  One entry of \<^verbatim>\<open>stockData\<close>: the fields \<^verbatim>\<open>Symbol\<close>, \<^verbatim>\<open>"Stock name"\<close> and \<^verbatim>\<open>link\<close>.
\<close>

record stock_entry =
  stock_Symbol :: "string option"
  stock_name :: "string option"
  stock_link :: "string option"

definition requiredColumnsError :: js_error where
  "requiredColumnsError =
     JsError ''Required columns (Scrap_Link, Symbol, Stock name) not found in the Google Sheet.''
       None"

definition noHeadersError :: js_error where
  "noHeadersError =
     JsError ''Could not read headers from the Google Sheet. Make sure the sheet is not empty.''
       None"

text \<open>\<^verbatim>\<open>String.fromCharCode(65 + col)\<close>, for the columns A to Z and the few beyond.\<close>

definition columnLetter :: "int \<Rightarrow> string" where
  "columnLetter col = [char_of (nat (65 + col))]"

text \<open>
  The \<^verbatim>\<open>try\<close> block (lines 158-222): the value it returns, or the error that leaves it.
  \<^verbatim>\<open>values[0]\<close> of an empty \<^verbatim>\<open>values\<close> array is \<^verbatim>\<open>undefined\<close>, and reading its
  \<^verbatim>\<open>length\<close> throws a TypeError.
\<close>

definition getStockUrlsFromSheet_try ::
  "world \<Rightarrow> sheet_config \<Rightarrow> (js_error + stock_entry list) \<times> event list" where
  "getStockUrlsFromSheet_try w cfg =
     (let headerRange = template (sheetName cfg) @ ''!1:1'' in
      case w_sheetsGet w headerRange of
        Inl e \<Rightarrow> (Inl e, [SheetsGet headerRange])
      | Inr values \<Rightarrow>
          (case (case values of
                   None \<Rightarrow> Inr []
                 | Some [] \<Rightarrow>
                     Inl (JsError ''Cannot read properties of undefined (reading length)'' None)
                 | Some (row # others) \<Rightarrow> Inr row) of
             Inl e \<Rightarrow> (Inl e, [SheetsGet headerRange])
           | Inr headers \<Rightarrow>
               if length headers = 0 then (Inl noHeadersError, [SheetsGet headerRange])
               else
                 (let scrapLinkColIndex = indexOf headers ''Scrap_Link'';
                      symbolColIndex = indexOf headers ''Symbol'';
                      stockNameColIndex = indexOf headers ''Stock name''
                  in if scrapLinkColIndex = - 1 \<or> symbolColIndex = - 1
                        \<or> stockNameColIndex = - 1
                     then (Inl requiredColumnsError, [SheetsGet headerRange])
                     else
                       (let startCol = min symbolColIndex (min stockNameColIndex scrapLinkColIndex);
                            endCol = max symbolColIndex (max stockNameColIndex scrapLinkColIndex);
                            dataRange = template (sheetName cfg) @ ''!'' @ columnLetter startCol
                                        @ '':'' @ columnLetter endCol
                        in case w_sheetsGet w dataRange of
                             Inl e \<Rightarrow> (Inl e, [SheetsGet headerRange, SheetsGet dataRange])
                           | Inr None \<Rightarrow>
                               (Inr [],
                                [SheetsGet headerRange, SheetsGet dataRange,
                                 Log ''No data found in the Google Sheet.''])
                           | Inr (Some []) \<Rightarrow>
                               (Inr [],
                                [SheetsGet headerRange, SheetsGet dataRange,
                                 Log ''No data found in the Google Sheet.''])
                           | Inr (Some (headerRow # rows)) \<Rightarrow>
                               (let stockData =
                                      filter (\<lambda>entry. truthy (stock_link entry))
                                        (map (\<lambda>row.
                                           \<lparr> stock_Symbol = at_index row (symbolColIndex - startCol),
                                             stock_name = at_index row (stockNameColIndex - startCol),
                                             stock_link = at_index row (scrapLinkColIndex - startCol) \<rparr>)
                                         rows)
                                in (Inr stockData,
                                    [SheetsGet headerRange, SheetsGet dataRange,
                                     Log (''Loaded '' @ show_nat (length stockData)
                                          @ '' stock URLs from Google Sheet.'')]))))))"

text \<open>
  The function: \<^verbatim>\<open>auth.authorize()\<close> stands before the \<^verbatim>\<open>try\<close> block, so its error
  leaves the function; the \<^verbatim>\<open>catch\<close> block (lines 223-231) logs any error of the block
  and returns the empty list.
\<close>

definition getStockUrlsFromSheet ::
  "world \<Rightarrow> sheet_config \<Rightarrow> (js_error + stock_entry list) \<times> event list" where
  "getStockUrlsFromSheet w cfg =
     (case w_authorize w of
        Some e \<Rightarrow> (Inl e, [Authorize])
      | None \<Rightarrow>
          prepend [Authorize, Log ''NewsProcessor: Google Sheet authentication successful.'']
            (case getStockUrlsFromSheet_try w cfg of
               (Inr stockData, tr) \<Rightarrow> (Inr stockData, tr)
             | (Inl error, tr) \<Rightarrow>
                 (Inr [],
                  tr @ [LogError (''Error accessing Google Sheet: '' @ message error)]
                  @ (if code error = Some 403
                     then [LogError (''Permission denied. Make sure the service account ''
                                     @ ''has read access to the Google Sheet.'')]
                     else []))))"


section \<open>The run: \<^verbatim>\<open>scrapeTradingViewNews\<close> (index.js, lines 538-725)\<close>

text \<open>What the body of the article loop did with one article.\<close>

datatype article_outcome = Stored | SkippedLogin | NotStored

text \<open>
  One pass of the article loop (lines 625-711). An article without a link is skipped
  before a page is opened. The \<^verbatim>\<open>continue\<close> taken when no content was extracted runs
  the \<^verbatim>\<open>finally\<close> block and skips the delay after it.
\<close>

definition processArticle ::
  "environment \<Rightarrow> world \<Rightarrow> string option \<Rightarrow> nat \<Rightarrow> nat \<Rightarrow> article
     \<Rightarrow> article_outcome \<times> event list" where
  "processArticle env w stockSymbol n_articles index a =
     (if \<not> truthy (link a)
      then (NotStored,
            [Log (''Skipping article '' @ show_nat (index + 1) @ '' with no link for ''
                  @ template stockSymbol)])
      else
        prepend
          [NewArticlePage,
           Log (''Processing article '' @ show_nat (index + 1) @ ''/'' @ show_nat n_articles
                @ '' for '' @ template stockSymbol @ '': '' @ [CHR 0x22] @ template (headline a)
                @ [CHR 0x22]),
           ArticleGoto (template (link a))]
          (case w_articleGoto w (template (link a)) of
             Some error \<Rightarrow>
               (NotStored,
                [LogError (''Error processing article '' @ show_nat (index + 1) @ '' for ''
                           @ template stockSymbol @ '': '' @ message error),
                 CloseArticlePage, Delay 1000])
           | None \<Rightarrow>
               prepend [Log ''Checking if article requires login...'']
                 (case extractArticleContent (w_articlePage w (template (link a))) of
                    (content, tr) \<Rightarrow>
                      if \<not> truthy content
                      then (SkippedLogin,
                            tr @ [Log (''Skipping article '' @ show_nat (index + 1) @ '' for ''
                                       @ template stockSymbol @ '' - no accessible content ''
                                       @ ''(likely requires login/subscription)''),
                                  CloseArticlePage])
                      else
                        (let wpData = \<lparr> wp_headline = headline a,
                                         wp_content = content,
                                         wp_symbol = js_or (symbol a) stockSymbol,
                                         wp_provider = provider a,
                                         wp_timestamp = timestamp a \<rparr>
                         in case storeInWordPress (CONFIG env) (w_newDate w) (w_toISODate w)
                                   (w_today w (template (link a))) (w_post w) wpData of
                              (True, tr2) \<Rightarrow>
                                (Stored,
                                 tr @ [Log ''Data to be sent to WordPress:''] @ tr2
                                 @ [Log (''Successfully stored article '' @ show_nat (index + 1)
                                         @ ''/'' @ show_nat n_articles @ '' for ''
                                         @ template stockSymbol @ '' in WordPress''),
                                    CloseArticlePage, Delay 1000])
                            | (False, tr2) \<Rightarrow>
                                (NotStored,
                                 tr @ [Log ''Data to be sent to WordPress:''] @ tr2
                                 @ [CloseArticlePage, Delay 1000])))))"

text \<open>The article loop with its two counters: articles stored, articles skipped.\<close>

fun articleLoop ::
  "environment \<Rightarrow> world \<Rightarrow> string option \<Rightarrow> nat \<Rightarrow> nat \<Rightarrow> article list
     \<Rightarrow> nat \<times> nat \<times> event list" where
  "articleLoop env w stockSymbol n_articles index [] = (0, 0, [])"
| "articleLoop env w stockSymbol n_articles index (a # rest) =
     (case processArticle env w stockSymbol n_articles index a of
        (outcome, tr) \<Rightarrow>
          (case articleLoop env w stockSymbol n_articles (index + 1) rest of
             (articlesStored, skippedDueToLogin, tr') \<Rightarrow>
               ((if outcome = Stored then 1 else 0) + articlesStored,
                (if outcome = SkippedLogin then 1 else 0) + skippedDueToLogin,
                tr @ tr')))"

text \<open>
  The loop over the stock entries (lines 584-718). A failed navigation is logged and the
  next entry is taken. \<^verbatim>\<open>autoScroll\<close> and \<^verbatim>\<open>trySelectors\<close> stand outside any
  \<^verbatim>\<open>try\<close> block: an error of theirs ends the loop and leaves the function.
\<close>

fun stockLoop :: "environment \<Rightarrow> world \<Rightarrow> stock_entry list \<Rightarrow> js_error option \<times> event list" where
  "stockLoop env w [] = (None, [])"
| "stockLoop env w (stockEntry # rest) =
     (let stockName = stock_name stockEntry;
          stockSymbol = stock_Symbol stockEntry;
          stockLink = template (stock_link stockEntry);
          start = [Log (CHR 0x0A # ''Processing news for '' @ template stockName @ '' (''
                        @ template stockSymbol @ '') from '' @ stockLink @ '' ---''),
                   Goto stockLink]
      in case w_goto w stockLink of
           Some error \<Rightarrow>
             prepend (start @ [LogError (''Failed to load news page for ''
                                        @ template stockSymbol @ '': '' @ message error)])
               (stockLoop env w rest)
         | None \<Rightarrow>
             (let loaded = start @ [Log (''Successfully loaded news page for ''
                                         @ template stockSymbol @ ''.''),
                                    Delay 3000, Evaluate AutoScroll]
              in case listing_fails (w_listing w stockLink) AutoScroll of
                   Some error \<Rightarrow> (Some error, loaded)
                 | None \<Rightarrow>
                     (case trySelectors (w_newDate w) (w_today w stockLink)
                             (w_listing w stockLink) SELECTOR_REGISTRY stockSymbol of
                        Inl error \<Rightarrow> (Some error, loaded @ [Delay 2000, Evaluate TrySelectors])
                      | Inr articlesOnPage \<Rightarrow>
                          (case articleLoop env w stockSymbol (length articlesOnPage) 0
                                  articlesOnPage of
                             (articlesStored, skippedDueToLogin, tr) \<Rightarrow>
                               prepend
                                 (loaded
                                  @ [Delay 2000, Evaluate TrySelectors,
                                     Log (''Found '' @ show_nat (length articlesOnPage)
                                          @ '' recent articles on '' @ template stockSymbol
                                          @ [CHR 0x27] @ ''s news page.'')]
                                  @ tr
                                  @ [Log (''Finished processing '' @ template stockSymbol
                                          @ '': '' @ show_nat articlesStored
                                          @ '' articles stored, '' @ show_nat skippedDueToLogin
                                          @ '' skipped (login required).''),
                                     Delay 2000])
                                 (stockLoop env w rest)))))"

text \<open>
  How a run ends: through the exit for an empty list of stock URLs (lines 571-575),
  through the \<^verbatim>\<open>catch\<close> block for a failed retrieval (lines 576-582), after the last
  stock entry, or with an error that leaves the function.
\<close>

datatype run_exit = NoStockUrls | RetrievalFailed js_error | Completed | Rejected js_error

definition scrapeTradingViewNews :: "environment \<Rightarrow> world \<Rightarrow> run_exit \<times> event list" where
  "scrapeTradingViewNews env w =
     (case getStockUrlsFromSheet w (GOOGLE_SHEET_CONFIG env) of
        (Inl error, tr) \<Rightarrow>
          (RetrievalFailed error,
           tr @ [LogError (''Failed to retrieve stock URLs from Google Sheet: '' @ message error),
                 BrowserClose])
      | (Inr stockUrls, tr) \<Rightarrow>
          if length stockUrls = 0
          then (NoStockUrls, tr @ [Log ''No stock URLs found to process. Exiting.'', BrowserClose])
          else
            (case stockLoop env w stockUrls of
               (Some error, tr2) \<Rightarrow> (Rejected error, tr @ tr2)
             | (None, tr2) \<Rightarrow>
                 (Completed,
                  tr @ tr2
                  @ [Log (CHR 0x0A # ''--- Scraping Complete ---''),
                     Log ''Finished processing all stock URLs from Google Sheet.'',
                     BrowserClose,
                     Log (CHR 0x0A # ''Browser closed.'')])))"

text \<open>Whether an effect is a page navigation.\<close>

fun isNavigation :: "event \<Rightarrow> bool" where
  "isNavigation (Goto url) = True"
| "isNavigation (ArticleGoto url) = True"
| "isNavigation e = False"

subsection \<open>Example sheets\<close>

text \<open>
  A world whose sheet has the header row \<open>headers\<close> and two data rows; every page loads
  and is empty.
\<close>

definition example_world :: "string list \<Rightarrow> world" where
  "example_world headers =
     \<lparr> w_newDate = example_newDate,
       w_toISODate = example_toISODate,
       w_today = (\<lambda>url. 1704283200000),
       w_post = example_post,
       w_authorize = None,
       w_sheetsGet =
         (\<lambda>range. if range = ''Sheet1!1:1'' then Inr (Some [headers])
                  else Inr (Some [headers,
                                  [''TCS'', ''Tata Consultancy'', ''https://in.tradingview.com/symbols/NSE-TCS/news/''],
                                  [''INFY'', ''Infosys'']])),
       w_goto = (\<lambda>url. None),
       w_listing = (\<lambda>url. example_listing []),
       w_articleGoto = (\<lambda>url. None),
       w_articlePage = (\<lambda>url. open_page []) \<rparr>"


section \<open>The lower-case table\<close>

lemma lowerCase_pairs:
  "zip upperCaseLetters lowerCaseLetters =
     [(CHR ''A'', CHR ''a''), (CHR ''B'', CHR ''b''), (CHR ''C'', CHR ''c''),
      (CHR ''D'', CHR ''d''), (CHR ''E'', CHR ''e''), (CHR ''F'', CHR ''f''),
      (CHR ''G'', CHR ''g''), (CHR ''H'', CHR ''h''), (CHR ''I'', CHR ''i''),
      (CHR ''J'', CHR ''j''), (CHR ''K'', CHR ''k''), (CHR ''L'', CHR ''l''),
      (CHR ''M'', CHR ''m''), (CHR ''N'', CHR ''n''), (CHR ''O'', CHR ''o''),
      (CHR ''P'', CHR ''p''), (CHR ''Q'', CHR ''q''), (CHR ''R'', CHR ''r''),
      (CHR ''S'', CHR ''s''), (CHR ''T'', CHR ''t''), (CHR ''U'', CHR ''u''),
      (CHR ''V'', CHR ''v''), (CHR ''W'', CHR ''w''), (CHR ''X'', CHR ''x''),
      (CHR ''Y'', CHR ''y''), (CHR ''Z'', CHR ''z''), (CHR 0xC0, CHR 0xE0),
      (CHR 0xC1, CHR 0xE1), (CHR 0xC2, CHR 0xE2), (CHR 0xC3, CHR 0xE3),
      (CHR 0xC4, CHR 0xE4), (CHR 0xC5, CHR 0xE5), (CHR 0xC6, CHR 0xE6),
      (CHR 0xC7, CHR 0xE7), (CHR 0xC8, CHR 0xE8), (CHR 0xC9, CHR 0xE9),
      (CHR 0xCA, CHR 0xEA), (CHR 0xCB, CHR 0xEB), (CHR 0xCC, CHR 0xEC),
      (CHR 0xCD, CHR 0xED), (CHR 0xCE, CHR 0xEE), (CHR 0xCF, CHR 0xEF),
      (CHR 0xD0, CHR 0xF0), (CHR 0xD1, CHR 0xF1), (CHR 0xD2, CHR 0xF2),
      (CHR 0xD3, CHR 0xF3), (CHR 0xD4, CHR 0xF4), (CHR 0xD5, CHR 0xF5),
      (CHR 0xD6, CHR 0xF6), (CHR 0xD8, CHR 0xF8), (CHR 0xD9, CHR 0xF9),
      (CHR 0xDA, CHR 0xFA), (CHR 0xDB, CHR 0xFB), (CHR 0xDC, CHR 0xFC),
      (CHR 0xDD, CHR 0xFD), (CHR 0xDE, CHR 0xFE)]"
  by (simp add: upperCaseLetters_def lowerCaseLetters_def)

text \<open>The lower-case forms of the texts of the examples.\<close>

lemma lowered:
  "toLowerCase ''Subscribe to read the full story'' = ''subscribe to read the full story''"
  "toLowerCase '' Reuters India '' = '' reuters india ''"
  "toLowerCase ''Bloomberg'' = ''bloomberg''"
  "toLowerCase ''Sensex ends higher'' = ''sensex ends higher''"
  "toLowerCase ''Exclusive News: merger'' = ''exclusive news: merger''"
  "toLowerCase ''Rupee slips'' = ''rupee slips''"
  "toLowerCase ''Nifty'' = ''nifty''"
  "toLowerCase ''Nifty-02'' = ''nifty-02''"
  "toLowerCase body40 = ''shares rose two percent after the update''"
  "toLowerCase body50 = ''quarterly revenue rose four percent, company says.''"
  "toLowerCase body60_restricted = ''this article is reserved for our members. join us today now!''"
  "toLowerCase body60_clean = ''the company reported a steady quarter with higher revenue ok''"
  "toLowerCase body60_clean_padded = '' the company reported a steady quarter with higher revenue ok''"
  "toLowerCase body40_padded = '' shares rose two percent after the update'' @ [CHR 0xA0, CHR '' '']"
  "toLowerCase body50_padded = ''quarterly revenue rose four percent, company says.'' @ [CHR 0xA0]"
  by code_simp+


section \<open>The Recency Filter\<close>

lemma truthy_Some [simp]: "truthy (Some s) = (s \<noteq> [])"
  by (simp add: truthy_def)

lemma truthy_None [simp]: "truthy None = False"
  by (simp add: truthy_def)

lemma whole_days_div:
  "\<lfloor>real_of_int d / real_of_int MS_PER_DAY\<rfloor> = d div MS_PER_DAY"
  by (rule floor_divide_of_int_eq)

text \<open>
  C1. The module-level recency check answers true exactly when the timestamp is present,
  non-empty, parses to an instant \<open>t\<close>, and the whole-day difference
  \<open>floor ((today - t) / 1 day)\<close> is at most the window. A future timestamp (negative
  difference) is recent for every window \<open>w \<ge> 0\<close>. A missing (\<open>None\<close>), empty or
  unparseable timestamp, and a constructor that throws, all give false: the result is a
  boolean in every case, so no error reaches the caller.
\<close>

theorem isRecentArticle_whole_day_difference:
  "(s \<noteq> [] \<and> newDate s = Inr (Some t) \<longrightarrow>
      isRecentArticle newDate today (Some s) w = ((today - t) div MS_PER_DAY \<le> w))
   \<and> (s \<noteq> [] \<and> newDate s = Inr (Some t) \<and> today < t \<and> 0 \<le> w \<longrightarrow>
      isRecentArticle newDate today (Some s) w)
   \<and> \<not> isRecentArticle newDate today None w
   \<and> \<not> isRecentArticle newDate today (Some []) w
   \<and> (newDate s = Inr None \<longrightarrow> \<not> isRecentArticle newDate today (Some s) w)
   \<and> (newDate s = Inl e \<longrightarrow> \<not> isRecentArticle newDate today (Some s) w)"
proof -
  have valid: "isRecentArticle newDate today (Some s) w = ((today - t) div MS_PER_DAY \<le> w)"
    if "s \<noteq> []" "newDate s = Inr (Some t)"
    unfolding isRecentArticle_def Let_def whole_days_div using that by simp
  have future: "(today - t) div MS_PER_DAY \<le> w" if "today < t" "0 \<le> w"
  proof -
    have "(today - t) div MS_PER_DAY < 0"
      using that(1) by (simp add: MS_PER_DAY_def div_neg_pos_less0)
    with that(2) show ?thesis by linarith
  qed
  have invalid: "\<not> isRecentArticle newDate today (Some s) w" if "newDate s = Inr None"
    using that by (simp add: isRecentArticle_def)
  have threw: "\<not> isRecentArticle newDate today (Some s) w" if "newDate s = Inl e"
    using that by (simp add: isRecentArticle_def)
  have missing: "\<not> isRecentArticle newDate today None w"
    "\<not> isRecentArticle newDate today (Some []) w"
    by (simp_all add: isRecentArticle_def)
  from valid future invalid threw missing show ?thesis by blast
qed


theorem isRecentArticle_whole_day_difference_witness:
  "isRecentArticle example_newDate 1704283200000 (Some ''2024-01-02T00:00:00.000Z'') 1
   \<and> \<not> isRecentArticle example_newDate 1704326400000 (Some ''2024-01-02T00:00:00.000Z'') 1
   \<and> isRecentArticle example_newDate 1704000000000 (Some ''2024-01-02T00:00:00.000Z'') 0
   \<and> \<not> isRecentArticle example_newDate 1704283200000 (Some ''yesterday'') 1
   \<and> \<not> isRecentArticle (\<lambda>s. Inl (JsError ''boom'' None)) 1704283200000 (Some ''x'') 1"
proof -
  note day_and_a_half =
    isRecentArticle_whole_day_difference
      [where newDate = example_newDate and s = "''2024-01-02T00:00:00.000Z''"
         and t = 1704153600000 and today = 1704283200000 and w = 1]
  note two_days =
    isRecentArticle_whole_day_difference
      [where newDate = example_newDate and s = "''2024-01-02T00:00:00.000Z''"
         and t = 1704153600000 and today = 1704326400000 and w = 1]
  note future =
    isRecentArticle_whole_day_difference
      [where newDate = example_newDate and s = "''2024-01-02T00:00:00.000Z''"
         and t = 1704153600000 and today = 1704000000000 and w = 0]
  note invalid =
    isRecentArticle_whole_day_difference
      [where newDate = example_newDate and s = "''yesterday''" and today = 1704283200000
         and w = 1]
  note threw =
    isRecentArticle_whole_day_difference
      [where newDate = "\<lambda>s. Inl (JsError ''boom'' None)" and s = "''x''"
         and e = "JsError ''boom'' None" and today = 1704283200000 and w = 1]
  have "isRecentArticle example_newDate 1704283200000 (Some ''2024-01-02T00:00:00.000Z'') 1"
    using day_and_a_half by (simp add: example_newDate_def MS_PER_DAY_def)
  moreover
  have "\<not> isRecentArticle example_newDate 1704326400000 (Some ''2024-01-02T00:00:00.000Z'') 1"
    using two_days by (simp add: example_newDate_def MS_PER_DAY_def)
  moreover
  have "isRecentArticle example_newDate 1704000000000 (Some ''2024-01-02T00:00:00.000Z'') 0"
    using future by (simp add: example_newDate_def MS_PER_DAY_def)
  moreover
  have "\<not> isRecentArticle example_newDate 1704283200000 (Some ''yesterday'') 1"
    using invalid by (simp add: example_newDate_def)
  moreover
  have "\<not> isRecentArticle (\<lambda>s. Inl (JsError ''boom'' None)) 1704283200000 (Some ''x'') 1"
    using threw by simp
  ultimately show ?thesis by blast
qed

section \<open>Facts about the string helpers\<close>

lemma startsWith_iff: "startsWith s p \<longleftrightarrow> (\<exists>suf. s = p @ suf)"
  by (induction s p rule: startsWith.induct) auto

lemma includes_str_iff: "includes_str s p \<longleftrightarrow> (\<exists>pre suf. s = pre @ p @ suf)"
proof (induction s)
  case Nil
  then show ?case by auto
next
  case (Cons c cs)
  show ?case
  proof
    assume "includes_str (c # cs) p"
    then consider "startsWith (c # cs) p" | "includes_str cs p" by auto
    then show "\<exists>pre suf. c # cs = pre @ p @ suf"
    proof cases
      case 1
      then obtain suf where "c # cs = p @ suf" by (auto simp: startsWith_iff)
      then have "c # cs = [] @ p @ suf" by simp
      then show ?thesis by blast
    next
      case 2
      then obtain pre suf where "cs = pre @ p @ suf" using Cons.IH by auto
      then have "c # cs = (c # pre) @ p @ suf" by simp
      then show ?thesis by blast
    qed
  next
    assume "\<exists>pre suf. c # cs = pre @ p @ suf"
    then obtain pre suf where eq: "c # cs = pre @ p @ suf" by auto
    show "includes_str (c # cs) p"
    proof (cases pre)
      case Nil
      with eq have "startsWith (c # cs) p" by (auto simp: startsWith_iff)
      then show ?thesis by simp
    next
      case (Cons d pre')
      with eq have "cs = pre' @ p @ suf" by simp
      then have "includes_str cs p" using Cons.IH by auto
      then show ?thesis by simp
    qed
  qed
qed

lemma includes_str_rev: "includes_str (rev s) (rev p) = includes_str s p"
proof -
  have "(\<exists>pre suf. rev s = pre @ rev p @ suf) \<longleftrightarrow> (\<exists>pre suf. s = pre @ p @ suf)"
  proof
    assume "\<exists>pre suf. rev s = pre @ rev p @ suf"
    then obtain pre suf where "rev s = pre @ rev p @ suf" by auto
    then have "rev (rev s) = rev (pre @ rev p @ suf)" by simp
    then have "s = rev suf @ p @ rev pre" by simp
    then show "\<exists>pre suf. s = pre @ p @ suf" by blast
  next
    assume "\<exists>pre suf. s = pre @ p @ suf"
    then obtain pre suf where "s = pre @ p @ suf" by auto
    then have "rev s = rev suf @ rev p @ rev pre" by simp
    then show "\<exists>pre suf. rev s = pre @ rev p @ suf" by blast
  qed
  then show ?thesis by (simp add: includes_str_iff)
qed

lemma includes_str_dropWhile:
  assumes "p \<noteq> []" "\<not> isSpace (hd p)"
  shows "includes_str (dropWhile isSpace s) p = includes_str s p"
proof (induction s)
  case Nil
  then show ?case by simp
next
  case (Cons c cs)
  from assms obtain q qs where p: "p = q # qs" "\<not> isSpace q" by (cases p) auto
  show ?case
  proof (cases "isSpace c")
    case True
    with p have "\<not> startsWith (c # cs) p" by auto
    with True Cons.IH show ?thesis by simp
  next
    case False
    then show ?thesis by simp
  qed
qed

text \<open>
  Trimming does not change whether a phrase occurs, when the phrase neither starts nor
  ends with white space.
\<close>

lemma includes_str_trim:
  assumes "p \<noteq> []" "\<not> isSpace (hd p)" "\<not> isSpace (last p)"
  shows "includes_str (trim s) p = includes_str s p"
proof -
  have r: "rev p \<noteq> []" "\<not> isSpace (hd (rev p))"
    using assms by (simp_all add: hd_rev)
  have "includes_str (trim s) p
        = includes_str (dropWhile isSpace (rev (dropWhile isSpace s))) (rev p)"
    unfolding trim_def
    using includes_str_rev [of "dropWhile isSpace (rev (dropWhile isSpace s))" "rev p"]
    by simp
  also have "\<dots> = includes_str (rev (dropWhile isSpace s)) (rev p)"
    by (rule includes_str_dropWhile [OF r])
  also have "\<dots> = includes_str (dropWhile isSpace s) p"
    by (rule includes_str_rev)
  also have "\<dots> = includes_str s p"
    by (rule includes_str_dropWhile [OF assms(1,2)])
  finally show ?thesis .
qed

lemma knownFreeProviders_trim:
  "name \<in> set knownFreeProviders \<Longrightarrow> includes_str (trim s) name = includes_str s name"
  by (rule includes_str_trim) (auto simp: knownFreeProviders_def isSpace_def)

lemma fst_prepend [simp]: "fst (prepend es r) = fst r"
  by (simp add: prepend_def)

lemma snd_prepend [simp]: "snd (prepend es r) = es @ snd r"
  by (simp add: prepend_def)


section \<open>The Access Gate\<close>

lemma allow_list_iff:
  "list_ex (\<lambda>p. includes_str (providerText_closure page) p) knownFreeProviders
   \<longleftrightarrow> (\<exists>t name. providerInnerText page = Some t \<and> name \<in> set knownFreeProviders
                 \<and> includes_str (toLowerCase t) name)"
proof (cases "providerInnerText page")
  case None
  then show ?thesis
    by (simp add: providerText_closure_def knownFreeProviders_def)
next
  case (Some t)
  then show ?thesis
    by (auto simp: providerText_closure_def list_ex_iff knownFreeProviders_trim)
qed

lemma gate_try_allow_listed:
  assumes "evaluate_fails page ProviderText = None"
    and "list_ex (\<lambda>p. includes_str (providerText_closure page) p) knownFreeProviders"
  shows "checkIfArticleRequiresLogin_try page =
           (Inr False,
            [Evaluate ProviderText,
             Log (''Skipping login check - public provider detected: ''
                  @ providerText_closure page)])"
  using assms by (simp add: checkIfArticleRequiresLogin_try_def evaluate_def)

lemma gate_try_scans:
  assumes "evaluate_fails page ProviderText = None"
    and "\<not> list_ex (\<lambda>p. includes_str (providerText_closure page) p) knownFreeProviders"
    and "evaluate_fails page LoginIndicators = None"
    and "evaluate_fails page LoginElements = None"
  shows "checkIfArticleRequiresLogin_try page =
           (Inr (loginIndicators_closure page \<or> hasLoginElements_closure page),
            [Evaluate ProviderText, Evaluate LoginIndicators, Evaluate LoginElements])"
  using assms by (simp add: checkIfArticleRequiresLogin_try_def evaluate_def)

lemma gate_try_error_cases:
  assumes "fst (checkIfArticleRequiresLogin_try page) = Inr b"
  shows "evaluate_fails page ProviderText = None"
    and "b \<longrightarrow> evaluate_fails page LoginIndicators = None
               \<and> evaluate_fails page LoginElements = None"
  using assms
  by (auto simp: checkIfArticleRequiresLogin_try_def evaluate_def
           split: option.splits if_splits)

lemma gate_result:
  "fst (checkIfArticleRequiresLogin page) =
     (case fst (checkIfArticleRequiresLogin_try page) of Inl e \<Rightarrow> False | Inr b \<Rightarrow> b)"
  by (cases "checkIfArticleRequiresLogin_try page")
     (auto simp: checkIfArticleRequiresLogin_def split: sum.splits)

text \<open>
  C6. When the provider text of the document contains a known-open provider name as a
  case-insensitive substring, the gate returns false and the only query it makes of the
  page is the one for the provider text: neither the visible-text scan nor the structural
  scan is evaluated, whatever paywall markers the document holds. Otherwise (the scans
  evaluating normally) it returns the disjunction of the two scans.
\<close>

theorem checkIfArticleRequiresLogin_allow_list:
  "(evaluate_fails page ProviderText = None \<and> providerInnerText page = Some t
      \<and> name \<in> set knownFreeProviders \<and> includes_str (toLowerCase t) name
    \<longrightarrow> checkIfArticleRequiresLogin page =
          (False,
           [Evaluate ProviderText,
            Log (''Skipping login check - public provider detected: ''
                 @ trim (toLowerCase t))]))
   \<and> (evaluate_fails page ProviderText = None \<and> evaluate_fails page LoginIndicators = None
        \<and> evaluate_fails page LoginElements = None
        \<and> \<not> (\<exists>t name. providerInnerText page = Some t \<and> name \<in> set knownFreeProviders
                       \<and> includes_str (toLowerCase t) name)
      \<longrightarrow> checkIfArticleRequiresLogin page =
            (loginIndicators_closure page \<or> hasLoginElements_closure page,
             [Evaluate ProviderText, Evaluate LoginIndicators, Evaluate LoginElements]))"
proof (intro conjI impI)
  assume a: "evaluate_fails page ProviderText = None \<and> providerInnerText page = Some t
      \<and> name \<in> set knownFreeProviders \<and> includes_str (toLowerCase t) name"
  then have "list_ex (\<lambda>p. includes_str (providerText_closure page) p) knownFreeProviders"
    unfolding allow_list_iff by blast
  with a have "checkIfArticleRequiresLogin_try page =
           (Inr False,
            [Evaluate ProviderText,
             Log (''Skipping login check - public provider detected: ''
                  @ providerText_closure page)])"
    by (simp add: gate_try_allow_listed)
  with a show "checkIfArticleRequiresLogin page =
          (False,
           [Evaluate ProviderText,
            Log (''Skipping login check - public provider detected: ''
                 @ trim (toLowerCase t))])"
    by (simp add: checkIfArticleRequiresLogin_def providerText_closure_def)
next
  assume a: "evaluate_fails page ProviderText = None \<and> evaluate_fails page LoginIndicators = None
        \<and> evaluate_fails page LoginElements = None
        \<and> \<not> (\<exists>t name. providerInnerText page = Some t \<and> name \<in> set knownFreeProviders
                       \<and> includes_str (toLowerCase t) name)"
  then have "\<not> list_ex (\<lambda>p. includes_str (providerText_closure page) p) knownFreeProviders"
    unfolding allow_list_iff by blast
  with a have "checkIfArticleRequiresLogin_try page =
           (Inr (loginIndicators_closure page \<or> hasLoginElements_closure page),
            [Evaluate ProviderText, Evaluate LoginIndicators, Evaluate LoginElements])"
    by (simp add: gate_try_scans)
  then show "checkIfArticleRequiresLogin page =
            (loginIndicators_closure page \<or> hasLoginElements_closure page,
             [Evaluate ProviderText, Evaluate LoginIndicators, Evaluate LoginElements])"
    by (simp add: checkIfArticleRequiresLogin_def)
qed

lemma example_page_simps [simp]:
  "evaluate_fails (example_page broken prov body) site =
     (if Some site = broken then Some (JsError ''Execution context was destroyed'' None)
      else None)"
  "providerInnerText (example_page broken prov body) = prov"
  "visibleContainers (example_page broken prov body) = [''Subscribe to read the full story'']"
  "hasElement (example_page broken prov body) sel = True"
  "eval_innerText (example_page broken prov body) sel = Inr body"
  by (simp_all add: example_page_def)

lemma open_page_simps [simp]:
  "evaluate_fails (open_page body) site = None"
  "providerInnerText (open_page body) = None"
  "visibleContainers (open_page body) = [body]"
  "hasElement (open_page body) sel = False"
  "eval_innerText (open_page body) sel = Inr body"
  by (simp_all add: open_page_def example_page_def)

lemma scans_of_example_page:
  "loginIndicators_closure (example_page broken prov body)"
  "hasLoginElements_closure (example_page broken prov body)"
  by (simp_all add: loginIndicators_closure_def hasLoginElements_closure_def
        loginIndicatorPhrases_def loginSelectors_def lowered)

theorem checkIfArticleRequiresLogin_allow_list_witness:
  "checkIfArticleRequiresLogin (example_page None (Some '' Reuters India '') []) =
     (False,
      [Evaluate ProviderText,
       Log ''Skipping login check - public provider detected: reuters india''])
   \<and> loginIndicators_closure (example_page None (Some '' Reuters India '') [])
   \<and> hasLoginElements_closure (example_page None (Some '' Reuters India '') [])
   \<and> checkIfArticleRequiresLogin (example_page None (Some ''Bloomberg'') []) =
       (True, [Evaluate ProviderText, Evaluate LoginIndicators, Evaluate LoginElements])"
proof -
  have lower: "toLowerCase '' Reuters India '' = '' reuters india ''"
    "toLowerCase ''Bloomberg'' = ''bloomberg''"
    by (simp_all add: lowered)
  have trimmed: "trim '' reuters india '' = ''reuters india''"
    by (simp add: trim_def isSpace_def)
  have hit: "includes_str '' reuters india '' ''reuters''"
    by simp
  have miss: "\<not> (\<exists>name. name \<in> set knownFreeProviders \<and> includes_str ''bloomberg'' name)"
    by (auto simp: knownFreeProviders_def)
  have "checkIfArticleRequiresLogin (example_page None (Some '' Reuters India '') []) =
     (False,
      [Evaluate ProviderText,
       Log ''Skipping login check - public provider detected: reuters india''])"
    using checkIfArticleRequiresLogin_allow_list
      [where page = "example_page None (Some '' Reuters India '') []"
         and t = "'' Reuters India ''" and name = "''reuters''"]
      hit
    by (simp add: lower trimmed knownFreeProviders_def)
  moreover
  have "checkIfArticleRequiresLogin (example_page None (Some ''Bloomberg'') []) =
       (True, [Evaluate ProviderText, Evaluate LoginIndicators, Evaluate LoginElements])"
    using checkIfArticleRequiresLogin_allow_list
      [where page = "example_page None (Some ''Bloomberg'') []"] miss
    by (simp add: lower scans_of_example_page)
  ultimately show ?thesis
    by (simp add: scans_of_example_page)
qed

text \<open>
  C9. An error thrown while the gate evaluates, at whichever of its three queries, is
  caught: the gate logs it and returns false. The gate's result is a boolean in every
  case, so no error reaches \<^verbatim>\<open>extractArticleContent\<close>.
\<close>

theorem checkIfArticleRequiresLogin_fail_open:
  "(fst (checkIfArticleRequiresLogin_try page) = Inl e
    \<longrightarrow> checkIfArticleRequiresLogin page =
          (False,
           snd (checkIfArticleRequiresLogin_try page)
           @ [Log (''Error during login check: '' @ message e)]))
   \<and> (site \<in> {ProviderText, LoginIndicators, LoginElements}
        \<and> evaluate_fails page site = Some e
      \<longrightarrow> fst (checkIfArticleRequiresLogin page) = False)"
proof (intro conjI impI)
  assume "fst (checkIfArticleRequiresLogin_try page) = Inl e"
  then show "checkIfArticleRequiresLogin page =
          (False,
           snd (checkIfArticleRequiresLogin_try page)
           @ [Log (''Error during login check: '' @ message e)])"
    by (cases "checkIfArticleRequiresLogin_try page")
       (simp add: checkIfArticleRequiresLogin_def)
next
  assume a: "site \<in> {ProviderText, LoginIndicators, LoginElements}
        \<and> evaluate_fails page site = Some e"
  show "fst (checkIfArticleRequiresLogin page) = False"
  proof (cases "fst (checkIfArticleRequiresLogin_try page)")
    case (Inl err)
    then show ?thesis by (simp add: gate_result)
  next
    case (Inr b)
    from gate_try_error_cases [OF Inr] a have "\<not> b" by auto
    with Inr show ?thesis by (simp add: gate_result)
  qed
qed

theorem checkIfArticleRequiresLogin_fail_open_witness:
  "checkIfArticleRequiresLogin (example_page (Some LoginElements) None []) =
     (False,
      [Evaluate ProviderText, Evaluate LoginIndicators, Evaluate LoginElements,
       Log ''Error during login check: Execution context was destroyed''])
   \<and> loginIndicators_closure (example_page (Some LoginElements) None [])
   \<and> fst (checkIfArticleRequiresLogin (example_page (Some ProviderText) None [])) = False"
proof -
  let ?p = "example_page (Some LoginElements) None []"
  have tried: "checkIfArticleRequiresLogin_try ?p =
     (Inl (JsError ''Execution context was destroyed'' None),
      [Evaluate ProviderText, Evaluate LoginIndicators, Evaluate LoginElements])"
    by (simp add: checkIfArticleRequiresLogin_try_def evaluate_def providerText_closure_def
          knownFreeProviders_def)
  have "checkIfArticleRequiresLogin ?p =
     (False,
      [Evaluate ProviderText, Evaluate LoginIndicators, Evaluate LoginElements,
       Log ''Error during login check: Execution context was destroyed''])"
    using checkIfArticleRequiresLogin_fail_open
      [where page = ?p and e = "JsError ''Execution context was destroyed'' None"]
    by (simp add: tried)
  moreover
  have "fst (checkIfArticleRequiresLogin (example_page (Some ProviderText) None [])) = False"
    using checkIfArticleRequiresLogin_fail_open
      [where page = "example_page (Some ProviderText) None []" and site = ProviderText
         and e = "JsError ''Execution context was destroyed'' None"]
    by simp
  ultimately show ?thesis
    by (simp add: scans_of_example_page)
qed


section \<open>The Content Extractor\<close>

lemma isRestricted_iff:
  "isRestricted content \<longleftrightarrow>
     (\<exists>phrase \<in> set restrictedPhrases. includes_str (toLowerCase content) phrase)"
  by (simp add: isRestricted_def list_ex_iff)

lemma prepend_prepend [simp]: "prepend es (prepend es' r) = prepend (es @ es') r"
  by (simp add: prepend_def)

lemma prepend_Nil [simp]: "prepend [] r = r"
  by (simp add: prepend_def)

lemma contentSelectorLoop_short:
  assumes "waitForSelector page sel = None" "eval_innerText page sel = Inr raw"
    and "length (trim raw) \<le> 50"
  shows "contentSelectorLoop page (sel # rest) =
           prepend [WaitForSelector sel, EvalInnerText sel] (contentSelectorLoop page rest)"
  using assms by (auto simp: Let_def)

lemma contentSelectorLoop_restricted:
  assumes "waitForSelector page sel = None" "eval_innerText page sel = Inr raw"
    and "50 < length (trim raw)" "isRestricted (trim raw)"
  shows "contentSelectorLoop page (sel # rest) =
           (Returned None,
            [WaitForSelector sel, EvalInnerText sel,
             Log ''Content contains restricted phrases - skipping''])"
  using assms by (auto simp: Let_def)

lemma contentSelectorLoop_clean:
  assumes "waitForSelector page sel = None" "eval_innerText page sel = Inr raw"
    and "50 < length (trim raw)" "\<not> isRestricted (trim raw)"
  shows "contentSelectorLoop page (sel # rest) =
           (Returned (Some (trim raw)),
            [WaitForSelector sel, EvalInnerText sel,
             Log (''Successfully extracted content ('' @ show_nat (length (trim raw))
                  @ '' characters)'')])"
  using assms by (auto simp: Let_def)

text \<open>Selectors that fail or yield a short text are passed over, leaving only their effects.\<close>

lemma contentSelectorLoop_skip:
  assumes "\<forall>s \<in> set pre. waitForSelector page s \<noteq> None
             \<or> (\<exists>e. eval_innerText page s = Inl e)
             \<or> (\<exists>raw. eval_innerText page s = Inr raw \<and> length (trim raw) \<le> 50)"
  shows "contentSelectorLoop page (pre @ later) =
           prepend (snd (contentSelectorLoop page pre)) (contentSelectorLoop page later)"
  using assms
proof (induction pre)
  case Nil
  then show ?case by simp
next
  case (Cons s pre)
  then have ih: "contentSelectorLoop page (pre @ later) =
           prepend (snd (contentSelectorLoop page pre)) (contentSelectorLoop page later)"
    by simp
  from Cons.prems
  have "waitForSelector page s \<noteq> None
        \<or> (\<exists>e. eval_innerText page s = Inl e)
        \<or> (\<exists>raw. eval_innerText page s = Inr raw \<and> length (trim raw) \<le> 50)"
    by simp
  then show ?case
    by (auto simp: ih Let_def split: option.splits sum.splits)
qed

lemma contentSelectorLoop_accepts:
  "fst (contentSelectorLoop page sels) = Returned (Some c) \<Longrightarrow>
     50 < length c \<and> \<not> isRestricted c
     \<and> (\<exists>sel \<in> set sels. \<exists>raw. eval_innerText page sel = Inr raw \<and> c = trim raw)"
proof (induction sels)
  case Nil
  then show ?case by simp
next
  case (Cons sel rest)
  then show ?case
    by (auto simp: Let_def split: option.splits sum.splits if_splits)
qed

lemma contentSelectorLoop_all_short:
  "(\<forall>sel \<in> set sels. waitForSelector page sel \<noteq> None
        \<or> (\<exists>e. eval_innerText page sel = Inl e)
        \<or> (\<exists>raw. eval_innerText page sel = Inr raw \<and> length (trim raw) \<le> 50))
   \<Longrightarrow> fst (contentSelectorLoop page sels) = Exhausted"
proof (induction sels)
  case Nil
  then show ?case by simp
next
  case (Cons sel rest)
  then show ?case
    by (auto simp: Let_def split: option.splits sum.splits)
qed

lemma containerLoop_all_short:
  "(\<forall>c \<in> set cs. \<forall>t. containerInnerText page c = Some t \<longrightarrow> length (trim t) \<le> 100)
   \<Longrightarrow> containerLoop page cs = None"
  by (induction cs) (auto simp: Let_def split: option.splits)

lemma containerLoop_long:
  "containerLoop page cs = Some c \<Longrightarrow> 100 < length c"
  by (induction cs) (auto simp: Let_def split: option.splits if_splits)

text \<open>The function, once the gate has answered false, in terms of its loop.\<close>

lemma extractArticleContent_returned:
  assumes "fst (checkIfArticleRequiresLogin page) = False"
    and "contentSelectorLoop page (contentSelectors SELECTOR_REGISTRY) = (Returned r, tr2)"
  shows "extractArticleContent page =
           (r, Delay 3000 # snd (checkIfArticleRequiresLogin page) @ tr2)"
proof -
  obtain b tr where gate: "checkIfArticleRequiresLogin page = (b, tr)"
    by (cases "checkIfArticleRequiresLogin page")
  with assms(1) have "b = False" by simp
  with gate assms(2) show ?thesis
    by (simp add: extractArticleContent_def prepend_def)
qed

lemma extractArticleContent_exhausted:
  assumes "fst (contentSelectorLoop page (contentSelectors SELECTOR_REGISTRY)) = Exhausted"
    and "containerLoop page fallbackContainers = None"
  shows "fst (extractArticleContent page) = None"
proof -
  obtain b tr where gate: "checkIfArticleRequiresLogin page = (b, tr)"
    by (cases "checkIfArticleRequiresLogin page")
  obtain tr2 where loop: "contentSelectorLoop page (contentSelectors SELECTOR_REGISTRY) = (Exhausted, tr2)"
    using assms(1) by (cases "contentSelectorLoop page (contentSelectors SELECTOR_REGISTRY)") auto
  show ?thesis
    using assms(2)
    by (cases b)
       (auto simp: extractArticleContent_def gate loop evaluate_def fallback_closure_def
             split: option.splits)
qed

lemma extractArticleContent_accepts:
  assumes "fst (extractArticleContent page) = Some c"
  shows "50 < length c \<and> \<not> isRestricted c"
proof -
  obtain b tr where gate: "checkIfArticleRequiresLogin page = (b, tr)"
    by (cases "checkIfArticleRequiresLogin page")
  obtain x tr2
    where loop: "contentSelectorLoop page (contentSelectors SELECTOR_REGISTRY) = (x, tr2)"
    by (cases "contentSelectorLoop page (contentSelectors SELECTOR_REGISTRY)")
  from assms gate have nb: "\<not> b"
    by (cases b) (auto simp: extractArticleContent_def)
  show ?thesis
  proof (cases x)
    case (Returned r)
    with assms gate loop nb have "r = Some c"
      by (simp add: extractArticleContent_def)
    with Returned loop contentSelectorLoop_accepts [of page "contentSelectors SELECTOR_REGISTRY" c]
    show ?thesis by simp
  next
    case Exhausted
    with assms gate loop nb
    have "containerLoop page fallbackContainers = Some c \<and> \<not> isRestricted c"
      by (auto simp: extractArticleContent_def evaluate_def fallback_closure_def
               split: option.splits sum.splits if_splits)
    with containerLoop_long [of page fallbackContainers c] show ?thesis by simp
  qed
qed

text \<open>
  C5. The Content Extractor, when the Access Gate has answered false and every content
  selector before \<open>sel\<close> failed or gave a short text, for the selector \<open>sel\<close> whose
  element is found and read:
  \<^item> a trimmed text of at most 50 characters is not accepted, and the loop goes on with
    the selectors after \<open>sel\<close>;
  \<^item> a trimmed text of more than 50 characters that contains a restricted phrase (compared
    in lower case) makes \<^verbatim>\<open>extractArticleContent\<close> return \<^verbatim>\<open>null\<close>, its last effects
    being the reading of \<open>sel\<close> and the log line: no later selector and no fallback
    container is tried;
  \<^item> a clean trimmed text of more than 50 characters is what \<^verbatim>\<open>extractArticleContent\<close>
    returns, as it is.
  Whatever the loop returns is what the function returns. No text of 50 characters or
  fewer, and no text with a restricted phrase, is ever returned by the function; a page
  whose selectors only yield short texts, and whose generic containers hold at most 100
  characters, yields \<^verbatim>\<open>null\<close>.
\<close>

theorem extractArticleContent_specific_selectors:
  "((\<forall>s \<in> set pre. waitForSelector page s \<noteq> None
        \<or> (\<exists>e. eval_innerText page s = Inl e)
        \<or> (\<exists>raw. eval_innerText page s = Inr raw \<and> length (trim raw) \<le> 50))
      \<and> waitForSelector page sel = None \<and> eval_innerText page sel = Inr raw
      \<and> length (trim raw) \<le> 50
    \<longrightarrow> contentSelectorLoop page (pre @ sel # rest) =
          prepend (snd (contentSelectorLoop page pre)
                   @ [WaitForSelector sel, EvalInnerText sel])
            (contentSelectorLoop page rest))
   \<and> (fst (checkIfArticleRequiresLogin page) = False
        \<and> contentSelectors SELECTOR_REGISTRY = pre @ sel # rest
        \<and> (\<forall>s \<in> set pre. waitForSelector page s \<noteq> None
              \<or> (\<exists>e. eval_innerText page s = Inl e)
              \<or> (\<exists>raw. eval_innerText page s = Inr raw \<and> length (trim raw) \<le> 50))
        \<and> waitForSelector page sel = None \<and> eval_innerText page sel = Inr raw
        \<and> 50 < length (trim raw)
        \<and> phrase \<in> set restrictedPhrases \<and> includes_str (toLowerCase (trim raw)) phrase
      \<longrightarrow> extractArticleContent page =
            (None,
             Delay 3000 # snd (checkIfArticleRequiresLogin page)
             @ snd (contentSelectorLoop page pre)
             @ [WaitForSelector sel, EvalInnerText sel,
                Log ''Content contains restricted phrases - skipping'']))
   \<and> (fst (checkIfArticleRequiresLogin page) = False
        \<and> contentSelectors SELECTOR_REGISTRY = pre @ sel # rest
        \<and> (\<forall>s \<in> set pre. waitForSelector page s \<noteq> None
              \<or> (\<exists>e. eval_innerText page s = Inl e)
              \<or> (\<exists>raw. eval_innerText page s = Inr raw \<and> length (trim raw) \<le> 50))
        \<and> waitForSelector page sel = None \<and> eval_innerText page sel = Inr raw
        \<and> 50 < length (trim raw)
        \<and> \<not> (\<exists>phrase \<in> set restrictedPhrases. includes_str (toLowerCase (trim raw)) phrase)
      \<longrightarrow> extractArticleContent page =
            (Some (trim raw),
             Delay 3000 # snd (checkIfArticleRequiresLogin page)
             @ snd (contentSelectorLoop page pre)
             @ [WaitForSelector sel, EvalInnerText sel,
                Log (''Successfully extracted content ('' @ show_nat (length (trim raw))
                     @ '' characters)'')]))
   \<and> (fst (checkIfArticleRequiresLogin page) = False
        \<and> fst (contentSelectorLoop page (contentSelectors SELECTOR_REGISTRY)) = Returned r
      \<longrightarrow> fst (extractArticleContent page) = r)
   \<and> (fst (extractArticleContent page) = Some c
      \<longrightarrow> 50 < length c
          \<and> \<not> (\<exists>phrase \<in> set restrictedPhrases. includes_str (toLowerCase c) phrase))
   \<and> ((\<forall>sel \<in> set (contentSelectors SELECTOR_REGISTRY).
          waitForSelector page sel \<noteq> None
          \<or> (\<exists>e. eval_innerText page sel = Inl e)
          \<or> (\<exists>raw. eval_innerText page sel = Inr raw \<and> length (trim raw) \<le> 50))
        \<and> (\<forall>c \<in> set fallbackContainers.
              \<forall>t. containerInnerText page c = Some t \<longrightarrow> length (trim t) \<le> 100)
      \<longrightarrow> fst (contentSelectorLoop page (contentSelectors SELECTOR_REGISTRY)) = Exhausted
          \<and> fst (extractArticleContent page) = None)"
proof (intro conjI impI)
  assume a: "(\<forall>s \<in> set pre. waitForSelector page s \<noteq> None
        \<or> (\<exists>e. eval_innerText page s = Inl e)
        \<or> (\<exists>raw. eval_innerText page s = Inr raw \<and> length (trim raw) \<le> 50))
      \<and> waitForSelector page sel = None \<and> eval_innerText page sel = Inr raw
      \<and> length (trim raw) \<le> 50"
  then have "contentSelectorLoop page (pre @ sel # rest) =
      prepend (snd (contentSelectorLoop page pre)) (contentSelectorLoop page (sel # rest))"
    by (intro contentSelectorLoop_skip) blast
  also from a have "contentSelectorLoop page (sel # rest) =
      prepend [WaitForSelector sel, EvalInnerText sel] (contentSelectorLoop page rest)"
    using contentSelectorLoop_short [of page sel raw rest] by blast
  finally show "contentSelectorLoop page (pre @ sel # rest) =
          prepend (snd (contentSelectorLoop page pre)
                   @ [WaitForSelector sel, EvalInnerText sel])
            (contentSelectorLoop page rest)"
    by simp
next
  assume a: "fst (checkIfArticleRequiresLogin page) = False
        \<and> contentSelectors SELECTOR_REGISTRY = pre @ sel # rest
        \<and> (\<forall>s \<in> set pre. waitForSelector page s \<noteq> None
              \<or> (\<exists>e. eval_innerText page s = Inl e)
              \<or> (\<exists>raw. eval_innerText page s = Inr raw \<and> length (trim raw) \<le> 50))
        \<and> waitForSelector page sel = None \<and> eval_innerText page sel = Inr raw
        \<and> 50 < length (trim raw)
        \<and> phrase \<in> set restrictedPhrases \<and> includes_str (toLowerCase (trim raw)) phrase"
  then have "isRestricted (trim raw)"
    unfolding isRestricted_iff by blast
  with a have here: "contentSelectorLoop page (sel # rest) =
            (Returned None,
             [WaitForSelector sel, EvalInnerText sel,
              Log ''Content contains restricted phrases - skipping''])"
    using contentSelectorLoop_restricted [of page sel raw rest] by blast
  from a have "contentSelectorLoop page (pre @ sel # rest) =
      prepend (snd (contentSelectorLoop page pre)) (contentSelectorLoop page (sel # rest))"
    by (intro contentSelectorLoop_skip) blast
  with a here have "contentSelectorLoop page (contentSelectors SELECTOR_REGISTRY) =
      (Returned None,
       snd (contentSelectorLoop page pre)
       @ [WaitForSelector sel, EvalInnerText sel,
          Log ''Content contains restricted phrases - skipping''])"
    by (simp add: prepend_def)
  with a show "extractArticleContent page =
            (None,
             Delay 3000 # snd (checkIfArticleRequiresLogin page)
             @ snd (contentSelectorLoop page pre)
             @ [WaitForSelector sel, EvalInnerText sel,
                Log ''Content contains restricted phrases - skipping''])"
    using extractArticleContent_returned by blast
next
  assume a: "fst (checkIfArticleRequiresLogin page) = False
        \<and> contentSelectors SELECTOR_REGISTRY = pre @ sel # rest
        \<and> (\<forall>s \<in> set pre. waitForSelector page s \<noteq> None
              \<or> (\<exists>e. eval_innerText page s = Inl e)
              \<or> (\<exists>raw. eval_innerText page s = Inr raw \<and> length (trim raw) \<le> 50))
        \<and> waitForSelector page sel = None \<and> eval_innerText page sel = Inr raw
        \<and> 50 < length (trim raw)
        \<and> \<not> (\<exists>phrase \<in> set restrictedPhrases. includes_str (toLowerCase (trim raw)) phrase)"
  then have "\<not> isRestricted (trim raw)"
    unfolding isRestricted_iff by blast
  with a have here: "contentSelectorLoop page (sel # rest) =
            (Returned (Some (trim raw)),
             [WaitForSelector sel, EvalInnerText sel,
              Log (''Successfully extracted content ('' @ show_nat (length (trim raw))
                   @ '' characters)'')])"
    using contentSelectorLoop_clean [of page sel raw rest] by blast
  from a have "contentSelectorLoop page (pre @ sel # rest) =
      prepend (snd (contentSelectorLoop page pre)) (contentSelectorLoop page (sel # rest))"
    by (intro contentSelectorLoop_skip) blast
  with a here have "contentSelectorLoop page (contentSelectors SELECTOR_REGISTRY) =
      (Returned (Some (trim raw)),
       snd (contentSelectorLoop page pre)
       @ [WaitForSelector sel, EvalInnerText sel,
          Log (''Successfully extracted content ('' @ show_nat (length (trim raw))
               @ '' characters)'')])"
    by (simp add: prepend_def)
  with a show "extractArticleContent page =
            (Some (trim raw),
             Delay 3000 # snd (checkIfArticleRequiresLogin page)
             @ snd (contentSelectorLoop page pre)
             @ [WaitForSelector sel, EvalInnerText sel,
                Log (''Successfully extracted content ('' @ show_nat (length (trim raw))
                     @ '' characters)'')])"
    using extractArticleContent_returned by blast
next
  assume a: "fst (checkIfArticleRequiresLogin page) = False
        \<and> fst (contentSelectorLoop page (contentSelectors SELECTOR_REGISTRY)) = Returned r"
  then obtain tr2
    where "contentSelectorLoop page (contentSelectors SELECTOR_REGISTRY) = (Returned r, tr2)"
    by (cases "contentSelectorLoop page (contentSelectors SELECTOR_REGISTRY)") auto
  with a show "fst (extractArticleContent page) = r"
    using extractArticleContent_returned [of page r tr2] by simp
next
  assume "fst (extractArticleContent page) = Some c"
  from extractArticleContent_accepts [OF this]
  show "50 < length c"
    and "\<not> (\<exists>phrase \<in> set restrictedPhrases. includes_str (toLowerCase c) phrase)"
    unfolding isRestricted_iff by blast+
next
  assume a: "(\<forall>sel \<in> set (contentSelectors SELECTOR_REGISTRY).
          waitForSelector page sel \<noteq> None
          \<or> (\<exists>e. eval_innerText page sel = Inl e)
          \<or> (\<exists>raw. eval_innerText page sel = Inr raw \<and> length (trim raw) \<le> 50))
        \<and> (\<forall>c \<in> set fallbackContainers.
              \<forall>t. containerInnerText page c = Some t \<longrightarrow> length (trim t) \<le> 100)"
  then have ex: "fst (contentSelectorLoop page (contentSelectors SELECTOR_REGISTRY)) = Exhausted"
    by (intro contentSelectorLoop_all_short) blast
  from a have "containerLoop page fallbackContainers = None"
    by (intro containerLoop_all_short) blast
  with ex show "fst (contentSelectorLoop page (contentSelectors SELECTOR_REGISTRY)) = Exhausted"
    and "fst (extractArticleContent page) = None"
    by (simp_all add: extractArticleContent_exhausted)
qed

lemma open_page_selectors [simp]:
  "waitForSelector (open_page body) sel =
     (if sel = body_selector then None else Some (JsError ''TimeoutError'' None))"
  "containerInnerText (open_page body) sel = (if sel = ''article'' then Some body else None)"
  by (simp_all add: open_page_def example_page_def body_selector_def)

lemma registry_split:
  "contentSelectors SELECTOR_REGISTRY = [first_selector] @ body_selector # later_selectors"
  by (simp add: SELECTOR_REGISTRY_def first_selector_def body_selector_def later_selectors_def)

lemma first_selector_absent:
  "first_selector \<noteq> body_selector"
  "contentSelectorLoop (open_page body) [first_selector] =
     (Exhausted, [WaitForSelector first_selector])"
  by (simp_all add: first_selector_def body_selector_def prepend_def)

lemma example_bodies:
  "trim body40_padded = body40"
  "trim body50_padded = body50"
  "trim body60_restricted = body60_restricted"
  "trim body60_clean_padded = body60_clean"
  "length body40 = 40"
  "length body50 = 50"
  "length body60_restricted = 60"
  "length body60_clean = 60"
  by (simp_all add: trim_def isSpace_def body40_def body50_def body60_restricted_def
        body60_clean_def body40_padded_def body50_padded_def body60_clean_padded_def)

lemma example_body_restricted:
  "includes_str (toLowerCase body60_restricted) ''this article is reserved for our members''"
  by (simp add: lowered)

lemma example_body_clean:
  "\<not> (\<exists>phrase \<in> set restrictedPhrases. includes_str (toLowerCase body60_clean) phrase)"
  by (simp add: restrictedPhrases_def lowered)

lemma example_gates:
  "checkIfArticleRequiresLogin (open_page body60_restricted) =
     (False, [Evaluate ProviderText, Evaluate LoginIndicators, Evaluate LoginElements])"
  "checkIfArticleRequiresLogin (open_page body60_clean_padded) =
     (False, [Evaluate ProviderText, Evaluate LoginIndicators, Evaluate LoginElements])"
  by (simp_all add: checkIfArticleRequiresLogin_def checkIfArticleRequiresLogin_try_def
        evaluate_def providerText_closure_def knownFreeProviders_def
        loginIndicators_closure_def hasLoginElements_closure_def loginIndicatorPhrases_def
        loginSelectors_def lowered)

theorem extractArticleContent_specific_selectors_witness:
  "contentSelectorLoop (open_page body40_padded) ([first_selector] @ body_selector # [''h1'']) =
     (Exhausted,
      [WaitForSelector first_selector, WaitForSelector body_selector,
       EvalInnerText body_selector, WaitForSelector ''h1''])
   \<and> extractArticleContent (open_page body60_restricted) =
       (None,
        [Delay 3000, Evaluate ProviderText, Evaluate LoginIndicators, Evaluate LoginElements,
         WaitForSelector first_selector, WaitForSelector body_selector,
         EvalInnerText body_selector,
         Log ''Content contains restricted phrases - skipping''])
   \<and> extractArticleContent (open_page body60_clean_padded) =
       (Some body60_clean,
        [Delay 3000, Evaluate ProviderText, Evaluate LoginIndicators, Evaluate LoginElements,
         WaitForSelector first_selector, WaitForSelector body_selector,
         EvalInnerText body_selector,
         Log ''Successfully extracted content (60 characters)''])
   \<and> fst (contentSelectorLoop (open_page body60_clean_padded)
            (contentSelectors SELECTOR_REGISTRY)) = Returned (Some body60_clean)
   \<and> 50 < length body60_clean
   \<and> fst (extractArticleContent (open_page body50_padded)) = None
   \<and> fst (extractArticleContent (open_page body40_padded)) = None"
proof -
  have sixty: "show_nat 60 = ''60''"
    by (simp add: show_nat.simps)
  have pre: "\<forall>s \<in> set [first_selector].
      waitForSelector (open_page body) s \<noteq> None
      \<or> (\<exists>e. eval_innerText (open_page body) s = Inl e)
      \<or> (\<exists>raw. eval_innerText (open_page body) s = Inr raw \<and> length (trim raw) \<le> 50)"
    for body
    by (simp add: first_selector_absent)
  note short =
    extractArticleContent_specific_selectors
      [where page = "open_page body40_padded" and pre = "[first_selector]"
         and sel = body_selector and raw = body40_padded and rest = "[''h1'']",
       THEN conjunct1]
  note restricted =
    extractArticleContent_specific_selectors
      [where page = "open_page body60_restricted" and pre = "[first_selector]"
         and sel = body_selector and raw = body60_restricted and rest = later_selectors
         and phrase = "''this article is reserved for our members''",
       THEN conjunct2, THEN conjunct1]
  note clean =
    extractArticleContent_specific_selectors
      [where page = "open_page body60_clean_padded" and pre = "[first_selector]"
         and sel = body_selector and raw = body60_clean_padded and rest = later_selectors,
       THEN conjunct2, THEN conjunct2, THEN conjunct1]
  note link =
    extractArticleContent_specific_selectors
      [where page = "open_page body60_clean_padded" and r = "Some body60_clean",
       THEN conjunct2, THEN conjunct2, THEN conjunct2, THEN conjunct1]
  note accepted =
    extractArticleContent_specific_selectors
      [where page = "open_page body60_clean_padded" and c = body60_clean,
       THEN conjunct2, THEN conjunct2, THEN conjunct2, THEN conjunct2, THEN conjunct1]
  note lone50 =
    extractArticleContent_specific_selectors
      [where page = "open_page body50_padded",
       THEN conjunct2, THEN conjunct2, THEN conjunct2, THEN conjunct2, THEN conjunct2]
  note lone40 =
    extractArticleContent_specific_selectors
      [where page = "open_page body40_padded",
       THEN conjunct2, THEN conjunct2, THEN conjunct2, THEN conjunct2, THEN conjunct2]
  have r1: "contentSelectorLoop (open_page body40_padded)
              ([first_selector] @ body_selector # [''h1'']) =
     (Exhausted,
      [WaitForSelector first_selector, WaitForSelector body_selector,
       EvalInnerText body_selector, WaitForSelector ''h1''])"
  proof -
    have "contentSelectorLoop (open_page body40_padded) [''h1''] =
            (Exhausted, [WaitForSelector ''h1''])"
      by (simp add: body_selector_def prepend_def)
    with short pre [of body40_padded] show ?thesis
      by (simp add: example_bodies first_selector_absent prepend_def)
  qed
  have r2: "extractArticleContent (open_page body60_restricted) =
       (None,
        [Delay 3000, Evaluate ProviderText, Evaluate LoginIndicators, Evaluate LoginElements,
         WaitForSelector first_selector, WaitForSelector body_selector,
         EvalInnerText body_selector,
         Log ''Content contains restricted phrases - skipping''])"
    using restricted pre [of body60_restricted] example_body_restricted registry_split
    by (simp add: example_bodies example_gates first_selector_absent restrictedPhrases_def)
  have r3: "extractArticleContent (open_page body60_clean_padded) =
       (Some body60_clean,
        [Delay 3000, Evaluate ProviderText, Evaluate LoginIndicators, Evaluate LoginElements,
         WaitForSelector first_selector, WaitForSelector body_selector,
         EvalInnerText body_selector,
         Log ''Successfully extracted content (60 characters)''])"
    using clean pre [of body60_clean_padded] example_body_clean registry_split
    by (simp add: example_bodies example_gates first_selector_absent sixty)
  have loop: "fst (contentSelectorLoop (open_page body60_clean_padded)
            (contentSelectors SELECTOR_REGISTRY)) = Returned (Some body60_clean)"
  proof -
    have "body60_clean \<noteq> []"
      by (simp add: body60_clean_def)
    with example_body_clean show ?thesis
      by (simp add: registry_split isRestricted_iff example_bodies first_selector_absent
            Let_def)
  qed
  have r4: "fst (extractArticleContent (open_page body60_clean_padded)) = Some body60_clean"
    using link loop by (simp add: example_gates)
  have r5: "50 < length body60_clean"
    using accepted r4 by blast
  have lone: "\<forall>sel \<in> set (contentSelectors SELECTOR_REGISTRY).
          waitForSelector (open_page body) sel \<noteq> None
          \<or> (\<exists>e. eval_innerText (open_page body) sel = Inl e)
          \<or> (\<exists>raw. eval_innerText (open_page body) sel = Inr raw \<and> length (trim raw) \<le> 50)"
    if "length (trim body) \<le> 50" for body
    using that by (simp add: SELECTOR_REGISTRY_def body_selector_def)
  have containers: "\<forall>c \<in> set fallbackContainers.
              \<forall>t. containerInnerText (open_page body) c = Some t \<longrightarrow> length (trim t) \<le> 100"
    if "length (trim body) \<le> 50" for body
    using that by (simp add: fallbackContainers_def)
  have r6: "fst (extractArticleContent (open_page body50_padded)) = None"
    using lone50 lone [of body50_padded] containers [of body50_padded]
    by (simp add: example_bodies)
  have r7: "fst (extractArticleContent (open_page body40_padded)) = None"
    using lone40 lone [of body40_padded] containers [of body40_padded]
    by (simp add: example_bodies)
  from r1 r2 r3 loop r5 r6 r7 show ?thesis by blast
qed


section \<open>The Deduplicator\<close>

lemma uniqueLoop_snoc:
  "uniqueLoop (xs @ [x]) seen uniq =
     uniqueLoop xs seen uniq
     @ (if dedupKey x \<in> seen \<union> dedupKey ` set xs then [] else [x])"
proof (induction xs arbitrary: seen uniq)
  case Nil
  then show ?case by (simp add: Let_def)
next
  case (Cons a xs)
  show ?case
  proof (cases "dedupKey a \<in> seen")
    case True
    then show ?thesis
      using Cons.IH [of seen uniq] by (auto simp: Let_def)
  next
    case False
    then show ?thesis
      using Cons.IH [of "insert (dedupKey a) seen" "uniq @ [a]"] by (auto simp: Let_def)
  qed
qed

lemma dedupe_Nil [simp]: "dedupe [] = []"
  by (simp add: dedupe_def)

lemma dedupe_snoc:
  "dedupe (xs @ [x]) = dedupe xs @ (if dedupKey x \<in> dedupKey ` set xs then [] else [x])"
  by (simp add: dedupe_def uniqueLoop_snoc)

lemma set_dedupe_subset: "set (dedupe xs) \<subseteq> set xs"
  by (induction xs rule: rev_induct) (auto simp: dedupe_snoc)

lemma dedupe_keys: "dedupKey ` set (dedupe xs) = dedupKey ` set xs"
  by (induction xs rule: rev_induct) (auto simp: dedupe_snoc)

lemma dedupe_distinct_keys: "distinct (map dedupKey (dedupe xs))"
proof (induction xs rule: rev_induct)
  case Nil
  then show ?case by simp
next
  case (snoc x xs)
  then show ?case
    using dedupe_keys [of xs] by (auto simp: dedupe_snoc)
qed

lemma dedupe_all_distinct: "distinct (map dedupKey xs) \<Longrightarrow> dedupe xs = xs"
  by (induction xs rule: rev_induct) (auto simp: dedupe_snoc)

lemma same_triple_same_key:
  "headline y = headline x \<Longrightarrow> timestamp y = timestamp x \<Longrightarrow> symbol y = symbol x
   \<Longrightarrow> dedupKey y = dedupKey x"
  by (simp add: dedupKey_def)


section \<open>The Article Extractor\<close>

lemma articleOfElement_Some:
  assumes "articleOfElement newDate today selectors stockSymbol element = Some a"
  shows "\<exists>h. headline a = Some h \<and> h \<noteq> []
             \<and> \<not> list_ex (\<lambda>indicator. includes_str (toLowerCase h) indicator)
                   restrictedIndicators"
    and "truthy (link a)"
    and "truthy (timestamp a)"
    and "isRecentArticle_inpage newDate today (timestamp a) 3"
    and "provider a =
           (if truthy (providerLoop element None (providerSelectors selectors))
            then providerLoop element None (providerSelectors selectors)
            else Some ''Unknown'')"
proof -
  let ?headline0 = "headlineLoop element None (headlineSelectors selectors)"
  let ?headline1 =
    "if \<not> truthy ?headline0
     then js_or (js_or (getAttribute element ''data-overflow-tooltip-text'')
                       (getAttribute element ''title''))
                (Some (trim (textContent element)))
     else ?headline0"
  let ?provider0 = "providerLoop element None (providerSelectors selectors)"
  let ?link0 =
    "js_or (js_or (href element)
                  (case querySelector element ''a'' of None \<Rightarrow> None | Some a \<Rightarrow> href a))
           (case closest_a element of None \<Rightarrow> None | Some a \<Rightarrow> href a)"
  let ?timestamp0 = "timeLoop element None (timeSelectors selectors)"
  from assms obtain h where h: "?headline1 = Some h"
    unfolding articleOfElement_def Let_def by (cases ?headline1) auto
  from assms h have pushed:
    "h \<noteq> []"
    "\<not> list_ex (\<lambda>indicator. includes_str (toLowerCase h) indicator) restrictedIndicators"
    "truthy ?link0" "truthy ?timestamp0"
    "isRecentArticle_inpage newDate today ?timestamp0 3"
    "a = \<lparr> headline = Some h, provider = js_or ?provider0 (Some ''Unknown''),
           timestamp = ?timestamp0, link = ?link0,
           symbol = js_or (cardSymbol_of element) stockSymbol \<rparr>"
    unfolding articleOfElement_def Let_def by (simp_all split: if_splits)
  show "\<exists>h. headline a = Some h \<and> h \<noteq> []
             \<and> \<not> list_ex (\<lambda>indicator. includes_str (toLowerCase h) indicator)
                   restrictedIndicators"
    using pushed by simp
  show "truthy (link a)" "truthy (timestamp a)"
    "isRecentArticle_inpage newDate today (timestamp a) 3"
    using pushed by simp_all
  show "provider a =
           (if truthy (providerLoop element None (providerSelectors selectors))
            then providerLoop element None (providerSelectors selectors)
            else Some ''Unknown'')"
    using pushed by (simp add: js_or_def)
qed

lemma trySelectors_elements:
  assumes "trySelectors newDate today page selectors stockSymbol = Inr articles"
    and "a \<in> set articles"
  shows "\<exists>element \<in> set (querySelectorAll page (join '','' (articleSelectors selectors))).
           articleOfElement newDate today selectors stockSymbol element = Some a"
proof -
  from assms(1) have "articles = trySelectors_closure newDate today page selectors stockSymbol"
    by (auto simp: trySelectors_def split: option.splits)
  with assms(2) set_dedupe_subset
  have "a \<in> set (List.map_filter (articleOfElement newDate today selectors stockSymbol)
                   (querySelectorAll page (join '','' (articleSelectors selectors))))"
    by (auto simp: trySelectors_closure_def Let_def)
  then show ?thesis
    by (auto simp: map_filter_def)
qed

text \<open>
  C8. Every article that \<^verbatim>\<open>trySelectors\<close> returns has a headline that is a non-empty
  string and contains no restricted phrase (compared in lower case), a link that is a
  non-empty string, a timestamp that is a non-empty string and passed the recency check
  of the page closure with the window of 3 days, and a provider that is a non-empty
  string: the text the provider selectors resolved, or \<open>Unknown\<close> when they resolved
  nothing.
\<close>

theorem trySelectors_article_invariants:
  "trySelectors newDate today page selectors stockSymbol = Inr articles \<and> a \<in> set articles
   \<longrightarrow> truthy (headline a)
       \<and> (\<forall>h. headline a = Some h \<longrightarrow>
              \<not> (\<exists>indicator \<in> set restrictedIndicators. includes_str (toLowerCase h) indicator))
       \<and> truthy (link a)
       \<and> truthy (timestamp a)
       \<and> isRecentArticle_inpage newDate today (timestamp a) 3
       \<and> truthy (provider a)
       \<and> (\<exists>element \<in> set (querySelectorAll page (join '','' (articleSelectors selectors))).
             articleOfElement newDate today selectors stockSymbol element = Some a
             \<and> provider a =
                 (if truthy (providerLoop element None (providerSelectors selectors))
                  then providerLoop element None (providerSelectors selectors)
                  else Some ''Unknown''))"
proof (intro impI)
  assume a: "trySelectors newDate today page selectors stockSymbol = Inr articles
             \<and> a \<in> set articles"
  then obtain element
    where el: "element \<in> set (querySelectorAll page (join '','' (articleSelectors selectors)))"
      and some: "articleOfElement newDate today selectors stockSymbol element = Some a"
    using trySelectors_elements by blast
  note inv = articleOfElement_Some [OF some]
  from inv(1) obtain h where h: "headline a = Some h" "h \<noteq> []"
    "\<not> list_ex (\<lambda>indicator. includes_str (toLowerCase h) indicator) restrictedIndicators"
    by blast
  have 1: "truthy (headline a)" using h by simp
  have 2: "\<forall>h. headline a = Some h \<longrightarrow>
              \<not> (\<exists>indicator \<in> set restrictedIndicators. includes_str (toLowerCase h) indicator)"
    using h by (simp add: list_ex_iff)
  have 3: "truthy (provider a)"
    using inv(5) by (simp split: if_splits)
  from 1 2 3 inv(2,3,4,5) el some show "truthy (headline a)
       \<and> (\<forall>h. headline a = Some h \<longrightarrow>
              \<not> (\<exists>indicator \<in> set restrictedIndicators. includes_str (toLowerCase h) indicator))
       \<and> truthy (link a)
       \<and> truthy (timestamp a)
       \<and> isRecentArticle_inpage newDate today (timestamp a) 3
       \<and> truthy (provider a)
       \<and> (\<exists>element \<in> set (querySelectorAll page (join '','' (articleSelectors selectors))).
             articleOfElement newDate today selectors stockSymbol element = Some a
             \<and> provider a =
                 (if truthy (providerLoop element None (providerSelectors selectors))
                  then providerLoop element None (providerSelectors selectors)
                  else Some ''Unknown''))"
    by blast
qed

lemma example_card_fields [simp]:
  "getAttribute (example_card h t) a = None"
  "textContent (example_card h t) = h"
  "href (example_card h t) = Some ''https://in.tradingview.com/news/x/''"
  "svgImgs (example_card h t) = []"
  "querySelector (example_card h t) sel =
     (if sel = ''h3''
        then Some \<lparr> getAttribute = (\<lambda>a. None), textContent = h, href = None \<rparr>
      else if sel = ''time''
        then Some \<lparr> getAttribute = (\<lambda>a. if a = ''datetime'' then Some t else None),
                    textContent = [], href = None \<rparr>
      else None)"
  by (simp_all add: example_card_def)

lemma example_card_recent:
  "articleOfElement example_newDate 1704628800000 SELECTOR_REGISTRY (Some ''TCS'')
     (example_card ''Sensex ends higher'' ''2024-01-05T00:00:00.000Z'')
   = Some ((mk_article ''Sensex ends higher'' ''2024-01-05T00:00:00.000Z'' (Some ''TCS'')))"
  by (simp add: articleOfElement_def SELECTOR_REGISTRY_def js_or_def trim_def isSpace_def
        restrictedIndicators_def lowered
        isRecentArticle_inpage_def example_newDate_def MS_PER_DAY_def cardSymbol_of_def
        map_filter_def mk_article_def)

lemma example_card_restricted:
  "articleOfElement example_newDate 1704628800000 SELECTOR_REGISTRY (Some ''TCS'')
     (example_card ''Exclusive News: merger'' ''2024-01-05T00:00:00.000Z'') = None"
  by (simp add: articleOfElement_def SELECTOR_REGISTRY_def js_or_def trim_def isSpace_def
        restrictedIndicators_def lowered)

lemma example_card_stale:
  "articleOfElement example_newDate 1704628800000 SELECTOR_REGISTRY (Some ''TCS'')
     (example_card ''Rupee slips'' ''2024-01-02T00:00:00.000Z'') = None"
  by (simp add: articleOfElement_def SELECTOR_REGISTRY_def js_or_def trim_def isSpace_def
        restrictedIndicators_def lowered
        isRecentArticle_inpage_def example_newDate_def MS_PER_DAY_def)

lemma example_listing_articles:
  "trySelectors example_newDate 1704628800000
     (example_listing
        [example_card ''Sensex ends higher'' ''2024-01-05T00:00:00.000Z'',
         example_card ''Exclusive News: merger'' ''2024-01-05T00:00:00.000Z'',
         example_card ''Rupee slips'' ''2024-01-02T00:00:00.000Z'',
         example_card ''Sensex ends higher'' ''2024-01-05T00:00:00.000Z''])
     SELECTOR_REGISTRY (Some ''TCS'')
   = Inr [mk_article ''Sensex ends higher'' ''2024-01-05T00:00:00.000Z'' (Some ''TCS'')]"
  by (simp add: trySelectors_def trySelectors_closure_def example_listing_def map_filter_def
        example_card_recent example_card_restricted example_card_stale dedupe_def)

theorem trySelectors_article_invariants_witness:
  "trySelectors example_newDate 1704628800000
     (example_listing
        [example_card ''Sensex ends higher'' ''2024-01-05T00:00:00.000Z'',
         example_card ''Exclusive News: merger'' ''2024-01-05T00:00:00.000Z'',
         example_card ''Rupee slips'' ''2024-01-02T00:00:00.000Z'',
         example_card ''Sensex ends higher'' ''2024-01-05T00:00:00.000Z''])
     SELECTOR_REGISTRY (Some ''TCS'')
   = Inr [mk_article ''Sensex ends higher'' ''2024-01-05T00:00:00.000Z'' (Some ''TCS'')]
   \<and> truthy (headline (mk_article ''Sensex ends higher'' ''2024-01-05T00:00:00.000Z'' (Some ''TCS'')))
   \<and> truthy (link (mk_article ''Sensex ends higher'' ''2024-01-05T00:00:00.000Z'' (Some ''TCS'')))
   \<and> isRecentArticle_inpage example_newDate 1704628800000
         (Some ''2024-01-05T00:00:00.000Z'') 3
   \<and> truthy (provider (mk_article ''Sensex ends higher'' ''2024-01-05T00:00:00.000Z'' (Some ''TCS'')))"
proof -
  let ?a = "mk_article ''Sensex ends higher'' ''2024-01-05T00:00:00.000Z'' (Some ''TCS'')"
  have ts: "timestamp ?a = Some ''2024-01-05T00:00:00.000Z''"
    by (simp add: mk_article_def)
  show ?thesis
    using trySelectors_article_invariants
      [where newDate = example_newDate and today = 1704628800000
         and page = "example_listing
            [example_card ''Sensex ends higher'' ''2024-01-05T00:00:00.000Z'',
             example_card ''Exclusive News: merger'' ''2024-01-05T00:00:00.000Z'',
             example_card ''Rupee slips'' ''2024-01-02T00:00:00.000Z'',
             example_card ''Sensex ends higher'' ''2024-01-05T00:00:00.000Z'']"
         and selectors = SELECTOR_REGISTRY and stockSymbol = "Some ''TCS''"
         and articles = "[?a]" and a = ?a]
      example_listing_articles ts
    by auto
qed


section \<open>The key of the Deduplicator\<close>

lemma nifty_cards:
  "articleOfElement legacy_newDate 1704283200000 SELECTOR_REGISTRY (Some ''NIFTY'')
     (example_card ''Nifty'' ''02-Jan-2024'')
   = Some (mk_article ''Nifty'' ''02-Jan-2024'' (Some ''NIFTY''))"
  "articleOfElement legacy_newDate 1704283200000 SELECTOR_REGISTRY (Some ''NIFTY'')
     (example_card ''Nifty-02'' ''Jan-2024'')
   = Some (mk_article ''Nifty-02'' ''Jan-2024'' (Some ''NIFTY''))"
  by (simp_all add: articleOfElement_def SELECTOR_REGISTRY_def js_or_def trim_def isSpace_def
        restrictedIndicators_def lowered isRecentArticle_inpage_def legacy_newDate_def
        MS_PER_DAY_def cardSymbol_of_def map_filter_def mk_article_def)

text \<open>
  C2. The deduplication does not keep every article with a distinct
  (headline, timestamp, symbol) triple. It compares the string
  \<^verbatim>\<open>`${headline}-${timestamp}-${symbol}`\<close>, and the join with hyphens is not injective:
  on a listing page read on 3 January 2024 at noon, a card with the headline \<open>Nifty\<close>
  and the timestamp \<open>02-Jan-2024\<close> and a card with the headline \<open>Nifty-02\<close> and the
  timestamp \<open>Jan-2024\<close> both pass every check of the extractor (the second is returned
  when it stands alone), their headlines and their timestamps differ, both have the key
  \<open>Nifty-02-Jan-2024-NIFTY\<close>, and \<^verbatim>\<open>trySelectors\<close> returns the first only.
\<close>

theorem trySelectors_collapses_distinct_triples:
  "trySelectors legacy_newDate 1704283200000
     (example_listing [example_card ''Nifty'' ''02-Jan-2024'',
                       example_card ''Nifty-02'' ''Jan-2024''])
     SELECTOR_REGISTRY (Some ''NIFTY'')
   = Inr [mk_article ''Nifty'' ''02-Jan-2024'' (Some ''NIFTY'')]
   \<and> trySelectors legacy_newDate 1704283200000
       (example_listing [example_card ''Nifty-02'' ''Jan-2024''])
       SELECTOR_REGISTRY (Some ''NIFTY'')
     = Inr [mk_article ''Nifty-02'' ''Jan-2024'' (Some ''NIFTY'')]
   \<and> dedupKey (mk_article ''Nifty'' ''02-Jan-2024'' (Some ''NIFTY''))
       = ''Nifty-02-Jan-2024-NIFTY''
   \<and> dedupKey (mk_article ''Nifty-02'' ''Jan-2024'' (Some ''NIFTY''))
       = ''Nifty-02-Jan-2024-NIFTY''
   \<and> headline (mk_article ''Nifty'' ''02-Jan-2024'' (Some ''NIFTY''))
       \<noteq> headline (mk_article ''Nifty-02'' ''Jan-2024'' (Some ''NIFTY''))
   \<and> timestamp (mk_article ''Nifty'' ''02-Jan-2024'' (Some ''NIFTY''))
       \<noteq> timestamp (mk_article ''Nifty-02'' ''Jan-2024'' (Some ''NIFTY''))"
proof -
  have keys:
    "dedupKey (mk_article ''Nifty'' ''02-Jan-2024'' (Some ''NIFTY'')) = ''Nifty-02-Jan-2024-NIFTY''"
    "dedupKey (mk_article ''Nifty-02'' ''Jan-2024'' (Some ''NIFTY'')) = ''Nifty-02-Jan-2024-NIFTY''"
    by (simp_all add: dedupKey_def mk_article_def template_def)
  have both: "trySelectors legacy_newDate 1704283200000
     (example_listing [example_card ''Nifty'' ''02-Jan-2024'',
                       example_card ''Nifty-02'' ''Jan-2024''])
     SELECTOR_REGISTRY (Some ''NIFTY'')
   = Inr [mk_article ''Nifty'' ''02-Jan-2024'' (Some ''NIFTY'')]"
    by (simp add: trySelectors_def trySelectors_closure_def example_listing_def
          map_filter_def nifty_cards dedupe_def keys)
  have alone: "trySelectors legacy_newDate 1704283200000
       (example_listing [example_card ''Nifty-02'' ''Jan-2024''])
       SELECTOR_REGISTRY (Some ''NIFTY'')
     = Inr [mk_article ''Nifty-02'' ''Jan-2024'' (Some ''NIFTY'')]"
    by (simp add: trySelectors_def trySelectors_closure_def example_listing_def
          map_filter_def nifty_cards dedupe_def)
  have differ:
    "headline (mk_article ''Nifty'' ''02-Jan-2024'' (Some ''NIFTY''))
       \<noteq> headline (mk_article ''Nifty-02'' ''Jan-2024'' (Some ''NIFTY''))"
    "timestamp (mk_article ''Nifty'' ''02-Jan-2024'' (Some ''NIFTY''))
       \<noteq> timestamp (mk_article ''Nifty-02'' ''Jan-2024'' (Some ''NIFTY''))"
    by (simp_all add: mk_article_def)
  from both alone keys differ show ?thesis by blast
qed


section \<open>Storage\<close>

lemma CONFIG_url_truthy: "truthy (wpApiUrl (CONFIG env))"
  by (cases "WP_API_URL env") (auto simp: CONFIG_def js_or_def defaultWpApiUrl_def)

lemma CONFIG_url_default:
  "\<not> truthy (WP_API_URL env) \<Longrightarrow> wpApiUrl (CONFIG env) = Some defaultWpApiUrl"
  by (simp add: CONFIG_def js_or_def)

lemma isRecentArticle_parsed:
  assumes "isRecentArticle newDate today ts w"
  obtains s t where "ts = Some s" "s \<noteq> []" "newDate s = Inr (Some t)"
  using assms
  by (auto simp: isRecentArticle_def split: option.splits if_splits sum.splits)

lemma store_not_recent:
  assumes "truthy (wpApiUrl cfg)"
    and "\<not> isRecentArticle newDate today (wp_timestamp data) 1"
  shows "storeInWordPress cfg newDate toISODate today axios_post data =
           (False, [Log ''Skipping storage - article is not recent''])"
  using assms by (simp add: storeInWordPress_def)

lemma store_recent:
  assumes "truthy (wpApiUrl cfg)"
    and "isRecentArticle newDate today (wp_timestamp data) 1"
  shows "\<exists>body rest.
           snd (storeInWordPress cfg newDate toISODate today axios_post data)
           = AxiosPost (template (wpApiUrl cfg)) body # rest"
proof -
  from assms(2) obtain s t where "wp_timestamp data = Some s" "newDate s = Inr (Some t)"
    by (rule isRecentArticle_parsed)
  with assms show ?thesis
    by (auto simp: storeInWordPress_def Let_def split: sum.splits)
qed

lemma store_post_only_recent:
  assumes "list_ex isPost (snd (storeInWordPress cfg newDate toISODate today axios_post data))"
  shows "isRecentArticle newDate today (wp_timestamp data) 1"
  using assms
  by (auto simp: storeInWordPress_def Let_def split: if_splits sum.splits option.splits)

text \<open>
  C7. With the configuration the program builds from its environment, an article whose
  timestamp fails the recency check with the window of 1 day makes \<^verbatim>\<open>storeInWordPress\<close>
  return false after the one log line, with no request made. Under any configuration, a
  request to the publishing endpoint among the effects of \<^verbatim>\<open>storeInWordPress\<close> means
  the article passed that check.
\<close>

theorem storeInWordPress_never_posts_stale:
  "(\<not> isRecentArticle newDate today (wp_timestamp data) 1
    \<longrightarrow> storeInWordPress (CONFIG env) newDate toISODate today axios_post data =
          (False, [Log ''Skipping storage - article is not recent'']))
   \<and> (list_ex isPost (snd (storeInWordPress cfg newDate toISODate today axios_post data))
      \<longrightarrow> isRecentArticle newDate today (wp_timestamp data) 1)"
  using store_not_recent [OF CONFIG_url_truthy] store_post_only_recent
  by blast

lemma example_store_recent:
  "storeInWordPress (CONFIG (example_env url)) example_newDate example_toISODate
     1704283200000 example_post (example_data ''2024-01-02T00:00:00.000Z'')
   = (True,
      [AxiosPost (template (js_or url (Some defaultWpApiUrl))) (example_body ''2024-01-02''),
       Log ''Stored in WordPress: ok''])"
  by (simp add: storeInWordPress_def CONFIG_url_truthy isRecentArticle_def example_newDate_def
        MS_PER_DAY_def example_data_def example_toISODate_def example_post_def
        example_body_def Let_def)
     (simp add: CONFIG_def example_env_def js_or_def)

theorem storeInWordPress_never_posts_stale_witness:
  "storeInWordPress (CONFIG (example_env (Some ''https://example.org/wp'')))
     example_newDate example_toISODate 1704412800000 example_post
     (example_data ''2024-01-02T00:00:00.000Z'')
   = (False, [Log ''Skipping storage - article is not recent''])
   \<and> \<not> isRecentArticle example_newDate 1704412800000 (Some ''2024-01-02T00:00:00.000Z'') 1
   \<and> list_ex isPost
        (snd (storeInWordPress (CONFIG (example_env (Some ''https://example.org/wp'')))
                example_newDate example_toISODate 1704283200000 example_post
                (example_data ''2024-01-02T00:00:00.000Z'')))
   \<and> isRecentArticle example_newDate 1704283200000 (Some ''2024-01-02T00:00:00.000Z'') 1"
proof -
  have ts: "wp_timestamp (example_data ''2024-01-02T00:00:00.000Z'')
            = Some ''2024-01-02T00:00:00.000Z''"
    by (simp add: example_data_def)
  have stale:
    "\<not> isRecentArticle example_newDate 1704412800000 (Some ''2024-01-02T00:00:00.000Z'') 1"
    by (simp add: isRecentArticle_def example_newDate_def MS_PER_DAY_def)
  have posted: "list_ex isPost
        (snd (storeInWordPress (CONFIG (example_env (Some ''https://example.org/wp'')))
                example_newDate example_toISODate 1704283200000 example_post
                (example_data ''2024-01-02T00:00:00.000Z'')))"
    by (simp add: example_store_recent)
  note stale_case =
    storeInWordPress_never_posts_stale
      [where newDate = example_newDate and today = 1704412800000
         and data = "example_data ''2024-01-02T00:00:00.000Z''"
         and env = "example_env (Some ''https://example.org/wp'')"
         and toISODate = example_toISODate and axios_post = example_post,
       THEN conjunct1]
  note recent_case =
    storeInWordPress_never_posts_stale
      [where newDate = example_newDate and today = 1704283200000
         and data = "example_data ''2024-01-02T00:00:00.000Z''"
         and cfg = "CONFIG (example_env (Some ''https://example.org/wp''))"
         and toISODate = example_toISODate and axios_post = example_post,
       THEN conjunct2]
  from stale_case stale recent_case posted show ?thesis
    by (simp add: ts)
qed

text \<open>
  C10, as the code has it. \<^verbatim>\<open>storeInWordPress\<close> skips the storage (no request, result
  true) when \<^verbatim>\<open>CONFIG.wpApiUrl\<close> is empty. The URL being absent from the environment
  does not make it empty: \<^verbatim>\<open>CONFIG.wpApiUrl\<close> is then the built-in default URL, and a
  recent article is sent to that endpoint.
\<close>

theorem storeInWordPress_url_fallback:
  "(\<not> truthy (wpApiUrl cfg)
    \<longrightarrow> storeInWordPress cfg newDate toISODate today axios_post data =
          (True, [Log ''WordPress API URL not configured. Skipping storage.'']))
   \<and> (\<not> truthy (WP_API_URL env) \<longrightarrow> wpApiUrl (CONFIG env) = Some defaultWpApiUrl)
   \<and> (\<not> truthy (WP_API_URL env) \<and> isRecentArticle newDate today (wp_timestamp data) 1
      \<longrightarrow> (\<exists>body rest.
             snd (storeInWordPress (CONFIG env) newDate toISODate today axios_post data)
             = AxiosPost defaultWpApiUrl body # rest))"
proof (intro conjI impI)
  assume "\<not> truthy (wpApiUrl cfg)"
  then show "storeInWordPress cfg newDate toISODate today axios_post data =
          (True, [Log ''WordPress API URL not configured. Skipping storage.''])"
    by (simp add: storeInWordPress_def)
next
  assume "\<not> truthy (WP_API_URL env)"
  then show "wpApiUrl (CONFIG env) = Some defaultWpApiUrl"
    by (rule CONFIG_url_default)
next
  assume a: "\<not> truthy (WP_API_URL env) \<and> isRecentArticle newDate today (wp_timestamp data) 1"
  then have url: "template (wpApiUrl (CONFIG env)) = defaultWpApiUrl"
    by (simp add: CONFIG_url_default template_def)
  from a store_recent [OF CONFIG_url_truthy, of newDate today data env toISODate axios_post]
  show "\<exists>body rest.
             snd (storeInWordPress (CONFIG env) newDate toISODate today axios_post data)
             = AxiosPost defaultWpApiUrl body # rest"
    unfolding url by blast
qed

theorem storeInWordPress_url_fallback_witness:
  "storeInWordPress \<lparr> wpApiUrl = None, wpUser = None, wpPass = None \<rparr>
     example_newDate example_toISODate 1704283200000 example_post
     (example_data ''2024-01-02T00:00:00.000Z'')
   = (True, [Log ''WordPress API URL not configured. Skipping storage.''])
   \<and> wpApiUrl (CONFIG (example_env (Some []))) = Some defaultWpApiUrl
   \<and> (\<exists>body rest.
         snd (storeInWordPress (CONFIG (example_env None)) example_newDate example_toISODate
                1704283200000 example_post (example_data ''2024-01-02T00:00:00.000Z''))
         = AxiosPost defaultWpApiUrl body # rest)"
proof -
  have recent:
    "isRecentArticle example_newDate 1704283200000
       (wp_timestamp (example_data ''2024-01-02T00:00:00.000Z'')) 1"
    by (simp add: isRecentArticle_def example_newDate_def MS_PER_DAY_def example_data_def)
  have unset: "\<not> truthy (WP_API_URL (example_env None))"
    "\<not> truthy (WP_API_URL (example_env (Some [])))"
    by (simp_all add: example_env_def)
  note skip =
    storeInWordPress_url_fallback
      [where cfg = "\<lparr> wpApiUrl = None, wpUser = None, wpPass = None \<rparr>"
         and newDate = example_newDate and toISODate = example_toISODate
         and today = 1704283200000 and axios_post = example_post
         and data = "example_data ''2024-01-02T00:00:00.000Z''",
       THEN conjunct1]
  note fallback =
    storeInWordPress_url_fallback
      [where env = "example_env (Some [])", THEN conjunct2, THEN conjunct1]
  note sent =
    storeInWordPress_url_fallback
      [where env = "example_env None"
         and newDate = example_newDate and toISODate = example_toISODate
         and today = 1704283200000 and axios_post = example_post
         and data = "example_data ''2024-01-02T00:00:00.000Z''",
       THEN conjunct2, THEN conjunct2]
  from skip fallback sent recent unset show ?thesis
    by simp
qed

text \<open>
  The claim as the specification words it fails: with \<^verbatim>\<open>WP_API_URL\<close> unset, the storage
  step is not skipped; the article is posted to the built-in default URL.
\<close>

theorem storeInWordPress_absent_url_counterexample:
  "WP_API_URL (example_env None) = None
   \<and> storeInWordPress (CONFIG (example_env None)) example_newDate example_toISODate
       1704283200000 example_post (example_data ''2024-01-02T00:00:00.000Z'')
     = (True,
        [AxiosPost ''https://profitbooking.in/wp-json/scraper/v1/tradingview''
           (example_body ''2024-01-02''),
         Log ''Stored in WordPress: ok''])"
  by (simp add: example_store_recent)
     (simp add: example_env_def js_or_def template_def defaultWpApiUrl_def)


section \<open>Missing sheet headers\<close>

lemma indexOf_absent: "x \<notin> set xs \<Longrightarrow> indexOf xs x = - 1"
  by (induction xs) (auto simp: Let_def)

lemma indexOf_present: "x \<in> set xs \<Longrightarrow> 0 \<le> indexOf xs x"
  by (induction xs) (auto simp: Let_def)

lemma indexOf_minus_one_iff: "indexOf xs x = - 1 \<longleftrightarrow> x \<notin> set xs"
  using indexOf_absent [of x xs] indexOf_present [of x xs] by auto

lemma sheet_try_missing_header:
  assumes "w_sheetsGet w (template (sheetName cfg) @ ''!1:1'') = Inr (Some (headers # others))"
    and "headers \<noteq> []"
    and "''Scrap_Link'' \<notin> set headers \<or> ''Symbol'' \<notin> set headers
         \<or> ''Stock name'' \<notin> set headers"
  shows "getStockUrlsFromSheet_try w cfg =
           (Inl requiredColumnsError, [SheetsGet (template (sheetName cfg) @ ''!1:1'')])"
proof -
  from assms(3) have "indexOf headers ''Scrap_Link'' = - 1 \<or> indexOf headers ''Symbol'' = - 1
      \<or> indexOf headers ''Stock name'' = - 1"
    by (simp add: indexOf_minus_one_iff)
  with assms(1,2) show ?thesis
    unfolding getStockUrlsFromSheet_try_def Let_def by simp
qed

lemma sheet_missing_header:
  assumes "w_authorize w = None"
    and "w_sheetsGet w (template (sheetName cfg) @ ''!1:1'') = Inr (Some (headers # others))"
    and "headers \<noteq> []"
    and "''Scrap_Link'' \<notin> set headers \<or> ''Symbol'' \<notin> set headers
         \<or> ''Stock name'' \<notin> set headers"
  shows "getStockUrlsFromSheet w cfg =
           (Inr [],
            [Authorize, Log ''NewsProcessor: Google Sheet authentication successful.'',
             SheetsGet (template (sheetName cfg) @ ''!1:1''),
             LogError (''Error accessing Google Sheet: '' @ message requiredColumnsError)])"
  using assms(1) sheet_try_missing_header [OF assms(2,3,4)]
  by (simp add: getStockUrlsFromSheet_def prepend_def requiredColumnsError_def)

text \<open>
  C3, as the code has it. When the header row of the sheet lacks one of \<open>Scrap_Link\<close>,
  \<open>Symbol\<close>, \<open>Stock name\<close>, \<^verbatim>\<open>getStockUrlsFromSheet\<close> logs the configuration error
  and returns the empty list, and the run ends before any page navigation: its effects
  are the two of the sheet access, the log lines and the closing of the browser. It ends
  through the exit for an empty list of stock URLs.
\<close>

theorem missing_header_ends_run_before_navigation:
  "w_authorize w = None
   \<and> w_sheetsGet w (template (SHEET_NAME env) @ ''!1:1'') = Inr (Some (headers # others))
   \<and> headers \<noteq> []
   \<and> (''Scrap_Link'' \<notin> set headers \<or> ''Symbol'' \<notin> set headers
        \<or> ''Stock name'' \<notin> set headers)
   \<longrightarrow> getStockUrlsFromSheet w (GOOGLE_SHEET_CONFIG env) =
         (Inr [],
          [Authorize, Log ''NewsProcessor: Google Sheet authentication successful.'',
           SheetsGet (template (SHEET_NAME env) @ ''!1:1''),
           LogError (''Error accessing Google Sheet: '' @ message requiredColumnsError)])
       \<and> scrapeTradingViewNews env w =
           (NoStockUrls,
            [Authorize, Log ''NewsProcessor: Google Sheet authentication successful.'',
             SheetsGet (template (SHEET_NAME env) @ ''!1:1''),
             LogError (''Error accessing Google Sheet: '' @ message requiredColumnsError),
             Log ''No stock URLs found to process. Exiting.'', BrowserClose])
       \<and> \<not> list_ex isNavigation (snd (scrapeTradingViewNews env w))"
proof (intro impI)
  assume a: "w_authorize w = None
   \<and> w_sheetsGet w (template (SHEET_NAME env) @ ''!1:1'') = Inr (Some (headers # others))
   \<and> headers \<noteq> []
   \<and> (''Scrap_Link'' \<notin> set headers \<or> ''Symbol'' \<notin> set headers
        \<or> ''Stock name'' \<notin> set headers)"
  have name: "sheetName (GOOGLE_SHEET_CONFIG env) = SHEET_NAME env"
    by (simp add: GOOGLE_SHEET_CONFIG_def)
  from a have sheet: "getStockUrlsFromSheet w (GOOGLE_SHEET_CONFIG env) =
         (Inr [],
          [Authorize, Log ''NewsProcessor: Google Sheet authentication successful.'',
           SheetsGet (template (SHEET_NAME env) @ ''!1:1''),
           LogError (''Error accessing Google Sheet: '' @ message requiredColumnsError)])"
    using sheet_missing_header [of w "GOOGLE_SHEET_CONFIG env" headers others]
    by (simp add: name)
  then have run: "scrapeTradingViewNews env w =
           (NoStockUrls,
            [Authorize, Log ''NewsProcessor: Google Sheet authentication successful.'',
             SheetsGet (template (SHEET_NAME env) @ ''!1:1''),
             LogError (''Error accessing Google Sheet: '' @ message requiredColumnsError),
             Log ''No stock URLs found to process. Exiting.'', BrowserClose])"
    by (simp add: scrapeTradingViewNews_def)
  have "\<not> list_ex isNavigation (snd (scrapeTradingViewNews env w))"
    unfolding run by simp
  with sheet run show "getStockUrlsFromSheet w (GOOGLE_SHEET_CONFIG env) =
         (Inr [],
          [Authorize, Log ''NewsProcessor: Google Sheet authentication successful.'',
           SheetsGet (template (SHEET_NAME env) @ ''!1:1''),
           LogError (''Error accessing Google Sheet: '' @ message requiredColumnsError)])
       \<and> scrapeTradingViewNews env w =
           (NoStockUrls,
            [Authorize, Log ''NewsProcessor: Google Sheet authentication successful.'',
             SheetsGet (template (SHEET_NAME env) @ ''!1:1''),
             LogError (''Error accessing Google Sheet: '' @ message requiredColumnsError),
             Log ''No stock URLs found to process. Exiting.'', BrowserClose])
       \<and> \<not> list_ex isNavigation (snd (scrapeTradingViewNews env w))"
    by blast
qed

lemma example_world_fields [simp]:
  "w_authorize (example_world headers) = None"
  "w_sheetsGet (example_world headers) ''Sheet1!1:1'' = Inr (Some [headers])"
  "SHEET_NAME (example_env url) = Some ''Sheet1''"
  by (simp_all add: example_world_def example_env_def)

theorem missing_header_ends_run_before_navigation_witness:
  "scrapeTradingViewNews (example_env None) (example_world [''Scrap_Link'', ''Stock name'']) =
     (NoStockUrls,
      [Authorize, Log ''NewsProcessor: Google Sheet authentication successful.'',
       SheetsGet ''Sheet1!1:1'',
       LogError (''Error accessing Google Sheet: '' @ message requiredColumnsError),
       Log ''No stock URLs found to process. Exiting.'', BrowserClose])
   \<and> \<not> list_ex isNavigation
         (snd (scrapeTradingViewNews (example_env None)
                 (example_world [''Scrap_Link'', ''Stock name''])))"
  using missing_header_ends_run_before_navigation
    [where w = "example_world [''Scrap_Link'', ''Stock name'']" and env = "example_env None"
       and headers = "[''Scrap_Link'', ''Stock name'']" and others = "[]"]
  by (simp add: template_def)

text \<open>
  The claim as the specification words it fails: with the \<open>Symbol\<close> header missing, the
  run does not end in an error. The error is caught inside \<^verbatim>\<open>getStockUrlsFromSheet\<close>,
  and the run leaves through the exit for an empty list of stock URLs, the exit a sheet
  with no data rows takes.
\<close>

theorem missing_header_clean_exit_counterexample:
  "''Symbol'' \<notin> set [''Scrap_Link'', ''Stock name'']
   \<and> fst (getStockUrlsFromSheet (example_world [''Scrap_Link'', ''Stock name''])
            (GOOGLE_SHEET_CONFIG (example_env None))) = Inr []
   \<and> fst (scrapeTradingViewNews (example_env None)
            (example_world [''Scrap_Link'', ''Stock name''])) = NoStockUrls"
proof -
  have "getStockUrlsFromSheet (example_world [''Scrap_Link'', ''Stock name''])
          (GOOGLE_SHEET_CONFIG (example_env None)) =
        (Inr [],
         [Authorize, Log ''NewsProcessor: Google Sheet authentication successful.'',
          SheetsGet ''Sheet1!1:1'',
          LogError (''Error accessing Google Sheet: '' @ message requiredColumnsError)])"
    using sheet_missing_header
      [of "example_world [''Scrap_Link'', ''Stock name'']"
          "GOOGLE_SHEET_CONFIG (example_env None)" "[''Scrap_Link'', ''Stock name'']" "[]"]
    by (simp add: GOOGLE_SHEET_CONFIG_def template_def)
  then show ?thesis
    by (simp add: scrapeTradingViewNews_def)
qed


section \<open>The two recency checks\<close>

text \<open>
  The check of the page closure is the stricter one: on a non-empty timestamp, whatever it
  accepts the module-level check accepts too.
\<close>

lemma isRecentArticle_inpage_stricter:
  assumes "s \<noteq> []" "isRecentArticle_inpage newDate today (Some s) w"
  shows "isRecentArticle newDate today (Some s) w"
proof -
  from assms(2) obtain t where t: "newDate s = Inr (Some t)"
    and le: "real_of_int (today - t) / real_of_int MS_PER_DAY \<le> real_of_int w"
    by (auto simp: isRecentArticle_inpage_def Let_def split: sum.splits option.splits)
  from le have "\<lfloor>real_of_int (today - t) / real_of_int MS_PER_DAY\<rfloor> \<le> w"
    by (simp add: floor_le_iff)
  with assms(1) t show ?thesis
    by (simp add: isRecentArticle_def Let_def)
qed

text \<open>
  C4. The two checks do not compute the same result. For an article published three and
  a half days before the check and a window of 3 days, the module-level function takes
  the floor of the difference, 3 whole days, and answers true; the helper declared again
  inside the page closure compares 3.5 with 3 and answers false.
\<close>

theorem isRecentArticle_copies_differ:
  "isRecentArticle example_newDate 1704456000000 (Some ''2024-01-02T00:00:00.000Z'') 3
   \<and> \<not> isRecentArticle_inpage example_newDate 1704456000000
         (Some ''2024-01-02T00:00:00.000Z'') 3"
  by (simp add: isRecentArticle_def isRecentArticle_inpage_def example_newDate_def
        MS_PER_DAY_def)

end
